theory Spec2Isabelle
  imports Complex_Main "HOL-Library.Sublist"
begin

section \<open>Python values\<close>

text \<open>
  A Python \<open>str\<close> is a sequence of Unicode code points, and \<open>len\<close>, slicing and
  \<open>strip\<close> count code points. The model keeps that: a string is the list of its code
  points. ASCII literals of the source are written through \<open>asc\<close>; the Chinese literals
  are written out as code points.
\<close>

type_synonym pystr = "nat list"

definition asc :: "string \<Rightarrow> pystr" where
  "asc s = map of_char s"

text \<open>\<open>str(n)\<close> for an integer: decimal digits, a minus sign for a negative number.\<close>

function str_nat :: "nat \<Rightarrow> pystr" where
  "str_nat n = (if n < 10 then [48 + n] else str_nat (n div 10) @ [48 + n mod 10])"
  by pat_completeness auto
termination
  by (relation "measure (\<lambda>n. n)") auto

declare str_nat.simps [simp del]

definition str_int :: "int \<Rightarrow> pystr" where
  "str_int i = (if i < 0 then 45 # str_nat (nat (- i)) else str_nat (nat i))"

text \<open>\<open>sep.join(xs)\<close> for a list of strings.\<close>

fun py_join :: "pystr \<Rightarrow> pystr list \<Rightarrow> pystr" where
  "py_join sep [] = []"
| "py_join sep [x] = x"
| "py_join sep (x # y # ys) = x @ sep @ py_join sep (y # ys)"

text \<open>
  \<open>xs[-n:]\<close> for a constant \<open>n \<ge> 0\<close>: the last \<open>n\<close> elements, the whole list when it
  is shorter, and (since \<open>-0\<close> is \<open>0\<close>) the whole list for \<open>n = 0\<close>.
\<close>

definition py_last_n :: "nat \<Rightarrow> 'a list \<Rightarrow> 'a list" where
  "py_last_n n xs = (if n = 0 then xs else drop (length xs - n) xs)"

text \<open>\<open>xs[lo:hi]\<close> for indices \<open>0 \<le> lo \<le> hi\<close>; Python clips both at the length.\<close>

definition py_slice :: "nat \<Rightarrow> nat \<Rightarrow> 'a list \<Rightarrow> 'a list" where
  "py_slice lo hi xs = take (hi - lo) (drop lo xs)"

text \<open>
  \<open>str.strip()\<close> removes leading and trailing whitespace, where whitespace is what
  \<open>str.isspace\<close> accepts: the code points below.
\<close>

definition py_isspace :: "nat \<Rightarrow> bool" where
  "py_isspace c =
     ((9 \<le> c \<and> c \<le> 13) \<or> (28 \<le> c \<and> c \<le> 32) \<or> c = 0x85 \<or> c = 0xA0 \<or> c = 0x1680 \<or>
      (0x2000 \<le> c \<and> c \<le> 0x200A) \<or> c = 0x2028 \<or> c = 0x2029 \<or> c = 0x202F \<or>
      c = 0x205F \<or> c = 0x3000)"

definition py_strip :: "pystr \<Rightarrow> pystr" where
  "py_strip s = rev (dropWhile py_isspace (rev (dropWhile py_isspace s)))"

section \<open>Constants and the data model\<close>

definition MAX_TOKENS :: int where
  "MAX_TOKENS = 4000"

definition MAX_HISTORY_ITEMS :: nat where
  "MAX_HISTORY_ITEMS = 20"

definition MAX_CONVERSATION_LENGTH :: nat where
  "MAX_CONVERSATION_LENGTH = 10000"

text \<open>A turn is a pair (user message, bot message); a conversation is a list of turns.\<close>

type_synonym turn = "pystr \<times> pystr"

type_synonym conversation = "turn list"

text \<open>An API-facing message: the dictionary \<open>{"role": ..., "content": ...}\<close>.\<close>

record message =
  role :: pystr
  content :: pystr

text \<open>
  JSON values as \<open>json.loads\<close> builds them; they are also the values that travel
  through the untyped parts of the program (a streamed fragment, the profile read from
  disk). \<open>JNull\<close> is Python's \<open>None\<close>. An object keeps its members as an association
  list; lookup takes the first match.
\<close>

datatype json =
    JNull
  | JBool bool
  | JInt int
  | JReal real
  | JStr pystr
  | JArr "json list"
  | JObj "(pystr \<times> json) list"

text \<open>The profile, with the fields section 3 of the specification gives it.\<close>

record profile =
  name :: pystr
  age :: int
  profession :: pystr
  interests :: "pystr list"
  memory :: "json list"

section \<open>Tokenizer adapter\<close>

text \<open>
  \<open>count_tokens(text) = len(encoding.encode(text))\<close>. The encoder is the tiktoken
  library's, not the repository's: it is a parameter \<open>enc\<close> of every function that
  counts tokens, mapping a string to its list of token ids. In this section the encoder
  answers every text, as the contract of section 4.1 of the specification has it; the
  encoder that may raise, and the functions that then raise with it, follow the
  exceptions below.
\<close>

definition count_tokens :: "(pystr \<Rightarrow> nat list) \<Rightarrow> pystr \<Rightarrow> int" where
  "count_tokens enc text = int (length (enc text))"

section \<open>Conversation window manager\<close>

text \<open>
  \<open>trim_conversation\<close>: the loop runs over \<open>reversed(conversation)\<close> with the state
  \<open>(total_tokens, trimmed)\<close>; \<open>break\<close> returns the list built so far;
  \<open>trimmed.insert(0, item)\<close> puts the item in front.
\<close>

fun trim_loop :: "(pystr \<Rightarrow> nat list) \<Rightarrow> int \<Rightarrow> turn list \<Rightarrow> int \<Rightarrow> turn list \<Rightarrow> turn list" where
  "trim_loop enc max_tokens [] total_tokens trimmed = trimmed"
| "trim_loop enc max_tokens ((user_msg, bot_msg) # rest) total_tokens trimmed =
     (let item_tokens = count_tokens enc user_msg + count_tokens enc bot_msg in
      if total_tokens + item_tokens > max_tokens then trimmed
      else trim_loop enc max_tokens rest (total_tokens + item_tokens)
             ((user_msg, bot_msg) # trimmed))"

definition trim_conversation :: "(pystr \<Rightarrow> nat list) \<Rightarrow> conversation \<Rightarrow> int \<Rightarrow> conversation" where
  "trim_conversation enc conversation max_tokens =
     trim_loop enc max_tokens (rev conversation) 0 []"

text \<open>The token cost of a turn and of a conversation, as the claims measure it.\<close>

definition turn_cost :: "(pystr \<Rightarrow> nat list) \<Rightarrow> turn \<Rightarrow> int" where
  "turn_cost enc t = count_tokens enc (fst t) + count_tokens enc (snd t)"

definition conversation_cost :: "(pystr \<Rightarrow> nat list) \<Rightarrow> conversation \<Rightarrow> int" where
  "conversation_cost enc c = sum_list (map (turn_cost enc) c)"

text \<open>
  \<open>prepare_api_messages\<close>. The system prompt is an f-string over four fields of the
  profile; its fixed parts are written as code points:
  U+4F60 U+6B63 U+5728 U+4E0E, then the name, then U+5BF9 U+8BDD, a colon, a newline,
  eight spaces, U+5E74 U+9F84, a colon and a space, and so on for the two other lines.
\<close>

definition system_prompt :: "profile \<Rightarrow> message" where
  "system_prompt p =
     \<lparr>role = asc ''system'',
      content =
        [0x4F60, 0x6B63, 0x5728, 0x4E0E] @ name p @
        [0x5BF9, 0x8BDD, 58, 10, 32, 32, 32, 32, 32, 32, 32, 32, 0x5E74, 0x9F84, 58, 32] @
        str_int (age p) @
        [10, 32, 32, 32, 32, 32, 32, 32, 32, 0x804C, 0x4E1A, 58, 32] @ profession p @
        [10, 32, 32, 32, 32, 32, 32, 32, 32, 0x5174, 0x8DA3, 58, 32] @
        py_join (asc '', '') (interests p)\<rparr>"

definition user_message :: "pystr \<Rightarrow> message" where
  "user_message s = \<lparr>role = asc ''user'', content = s\<rparr>"

definition assistant_message :: "pystr \<Rightarrow> message" where
  "assistant_message s = \<lparr>role = asc ''assistant'', content = s\<rparr>"

text \<open>
  The loop over \<open>conversation[-MAX_HISTORY_ITEMS:]\<close>, with the state
  \<open>(messages, tokens_used)\<close>; \<open>break\<close> leaves the loop with the state as it is.
\<close>

fun history_loop ::
  "(pystr \<Rightarrow> nat list) \<Rightarrow> turn list \<Rightarrow> message list \<Rightarrow> int \<Rightarrow> message list \<times> int" where
  "history_loop enc [] messages tokens_used = (messages, tokens_used)"
| "history_loop enc ((user_msg, bot_msg) # rest) messages tokens_used =
     (let user_content = user_message user_msg;
          bot_content = assistant_message bot_msg;
          new_tokens = count_tokens enc user_msg + count_tokens enc bot_msg in
      if tokens_used + new_tokens > MAX_TOKENS then (messages, tokens_used)
      else history_loop enc rest (messages @ [user_content, bot_content])
             (tokens_used + new_tokens))"

definition history_messages ::
  "(pystr \<Rightarrow> nat list) \<Rightarrow> conversation \<Rightarrow> profile \<Rightarrow> message list \<times> int" where
  "history_messages enc conversation p =
     history_loop enc (py_last_n MAX_HISTORY_ITEMS conversation) [system_prompt p]
       (count_tokens enc (content (system_prompt p)))"

definition prepare_api_messages ::
  "(pystr \<Rightarrow> nat list) \<Rightarrow> conversation \<Rightarrow> profile \<Rightarrow> pystr \<Rightarrow> message list" where
  "prepare_api_messages enc conversation p new_message =
     (case history_messages enc conversation p of
        (messages, tokens_used) \<Rightarrow>
          if count_tokens enc new_message + tokens_used < MAX_TOKENS
          then messages @ [user_message new_message]
          else messages)"

text \<open>The token cost of a message list: the sum of the costs of the contents.\<close>

definition messages_cost :: "(pystr \<Rightarrow> nat list) \<Rightarrow> message list \<Rightarrow> int" where
  "messages_cost enc ms = sum_list (map (\<lambda>m. count_tokens enc (content m)) ms)"

text \<open>The two messages a turn becomes.\<close>

definition turn_messages :: "turn \<Rightarrow> message list" where
  "turn_messages t = [user_message (fst t), assistant_message (snd t)]"

section \<open>Exceptions\<close>

text \<open>
  The exceptions the program can meet, by class. Each of these classes is a subclass of
  \<open>Exception\<close>, which is what \<open>except Exception\<close> catches; \<open>JSONDecodeError\<close> is the
  class the inner handler of the streaming loop names; \<open>ValueError\<close> is what the
  tiktoken encoder raises on a text that contains a special token such as
  \<open><|endoftext|>\<close>. An exception carries the text \<open>str(e)\<close>. Asynchronous interruptions of the process (\<open>KeyboardInterrupt\<close>,
  \<open>SystemExit\<close>) are no part of this model.
\<close>

datatype exc_class =
    FileNotFoundError
  | JSONDecodeError
  | UnicodeDecodeError
  | TypeError
  | KeyError
  | IndexError
  | AttributeError
  | RequestException
  | ValueError
  | OtherException

datatype exn = Exn (exc_class_of: exc_class) (exc_str: pystr)

fun is_Exception :: "exc_class \<Rightarrow> bool" where
  "is_Exception FileNotFoundError = True"
| "is_Exception JSONDecodeError = True"
| "is_Exception UnicodeDecodeError = True"
| "is_Exception TypeError = True"
| "is_Exception KeyError = True"
| "is_Exception IndexError = True"
| "is_Exception AttributeError = True"
| "is_Exception RequestException = True"
| "is_Exception ValueError = True"
| "is_Exception OtherException = True"

section \<open>A tokenizer that refuses a text\<close>

text \<open>
  The encoder of the program is \<open>tiktoken.get_encoding("cl100k_base")\<close>, and its
  \<open>encode\<close> raises on some texts. Where the program runs, the encoder is therefore a
  function into \<open>exn + nat list\<close>, and \<open>count_tokens\<close> and the two functions that call
  it raise what it raises. The functions of the previous section, over a total \<open>enc\<close>,
  are these functions where no text is refused; \<open>tokens\<close> gives the total encoder that
  agrees with a refusing one wherever that one answers.
\<close>

definition tokens :: "(pystr \<Rightarrow> exn + nat list) \<Rightarrow> pystr \<Rightarrow> nat list" where
  "tokens tok s = (case tok s of Inr t \<Rightarrow> t | Inl x \<Rightarrow> [])"

definition count_tokens_raising :: "(pystr \<Rightarrow> exn + nat list) \<Rightarrow> pystr \<Rightarrow> exn + int" where
  "count_tokens_raising tok s = (case tok s of Inl x \<Rightarrow> Inl x | Inr t \<Rightarrow> Inr (int (length t)))"

text \<open>
  The two counts of a turn, \<open>count_tokens(user_msg) + count_tokens(bot_msg)\<close>, left
  operand first.
\<close>

definition turn_tokens_raising :: "(pystr \<Rightarrow> exn + nat list) \<Rightarrow> pystr \<Rightarrow> pystr \<Rightarrow> exn + int" where
  "turn_tokens_raising tok user_msg bot_msg =
     (case count_tokens_raising tok user_msg of
        Inl x \<Rightarrow> Inl x
      | Inr a \<Rightarrow>
          (case count_tokens_raising tok bot_msg of
             Inl x \<Rightarrow> Inl x
           | Inr b \<Rightarrow> Inr (a + b)))"

fun trim_loop_raising ::
  "(pystr \<Rightarrow> exn + nat list) \<Rightarrow> int \<Rightarrow> turn list \<Rightarrow> int \<Rightarrow> turn list \<Rightarrow> exn + turn list" where
  "trim_loop_raising tok max_tokens [] total_tokens trimmed = Inr trimmed"
| "trim_loop_raising tok max_tokens ((user_msg, bot_msg) # rest) total_tokens trimmed =
     (case turn_tokens_raising tok user_msg bot_msg of
        Inl x \<Rightarrow> Inl x
      | Inr item_tokens \<Rightarrow>
          if total_tokens + item_tokens > max_tokens then Inr trimmed
          else trim_loop_raising tok max_tokens rest (total_tokens + item_tokens)
                 ((user_msg, bot_msg) # trimmed))"

definition trim_conversation_raising ::
  "(pystr \<Rightarrow> exn + nat list) \<Rightarrow> conversation \<Rightarrow> int \<Rightarrow> exn + conversation" where
  "trim_conversation_raising tok conversation max_tokens =
     trim_loop_raising tok max_tokens (rev conversation) 0 []"

fun history_loop_raising ::
  "(pystr \<Rightarrow> exn + nat list) \<Rightarrow> turn list \<Rightarrow> message list \<Rightarrow> int \<Rightarrow>
     exn + message list \<times> int" where
  "history_loop_raising tok [] msgs tokens_used = Inr (msgs, tokens_used)"
| "history_loop_raising tok ((user_msg, bot_msg) # rest) msgs tokens_used =
     (let user_content = user_message user_msg;
          bot_content = assistant_message bot_msg
      in case turn_tokens_raising tok user_msg bot_msg of
           Inl x \<Rightarrow> Inl x
         | Inr new_tokens \<Rightarrow>
             if tokens_used + new_tokens > MAX_TOKENS then Inr (msgs, tokens_used)
             else history_loop_raising tok rest (msgs @ [user_content, bot_content])
                    (tokens_used + new_tokens))"

definition prepare_api_messages_raising ::
  "(pystr \<Rightarrow> exn + nat list) \<Rightarrow> conversation \<Rightarrow> profile \<Rightarrow> pystr \<Rightarrow> exn + message list" where
  "prepare_api_messages_raising tok conversation p new_message =
     (case count_tokens_raising tok (content (system_prompt p)) of
        Inl x \<Rightarrow> Inl x
      | Inr system_tokens \<Rightarrow>
          (case history_loop_raising tok (py_last_n MAX_HISTORY_ITEMS conversation)
                  [system_prompt p] system_tokens of
             Inl x \<Rightarrow> Inl x
           | Inr (msgs, tokens_used) \<Rightarrow>
               (case count_tokens_raising tok new_message of
                  Inl x \<Rightarrow> Inl x
                | Inr new_tokens \<Rightarrow>
                    if new_tokens + tokens_used < MAX_TOKENS
                    then Inr (msgs @ [user_message new_message])
                    else Inr msgs)))"

section \<open>The environment\<close>

text \<open>The request body and headers of the one HTTP call the program makes.\<close>

record request =
  req_url :: pystr
  req_authorization :: pystr
  req_content_type :: pystr
  req_model :: pystr
  req_messages :: "message list"
  req_stream :: bool
  req_max_tokens :: int

text \<open>
  What \<open>requests.post(..., stream=True)\<close> can do: raise, or give a response with a
  status code whose \<open>iter_lines()\<close> delivers byte lines and then either ends or
  raises.
\<close>

datatype http_outcome =
    PostRaises exn
  | Response int "nat list list" "exn option"

text \<open>
  Everything the program takes from libraries and the outside world is a field of the
  environment: the tiktoken encoder (which may refuse a text), the \<open>json\<close> module (\<open>dumps\<close> with
  \<open>ensure_ascii=False\<close>, \<open>dump\<close> with \<open>indent=2\<close>, \<open>loads\<close>), \<open>bytes.decode\<close>,
  \<open>str\<close> of a list of message dictionaries, the text of an error the interpreter
  raises on a value, the clock (the formatted timestamp of the n-th reading) and the
  remote endpoint (its answer to the n-th request).
\<close>

record env =
  encode :: "pystr \<Rightarrow> exn + nat list"
  json_dumps :: "json \<Rightarrow> pystr"
  json_dump_indent :: "json \<Rightarrow> pystr"
  json_loads :: "pystr \<Rightarrow> exn + json"
  utf8_decode :: "nat list \<Rightarrow> exn + pystr"
  str_messages :: "message list \<Rightarrow> pystr"
  error_text :: "exc_class \<Rightarrow> json \<Rightarrow> pystr"
  strftime_now :: "nat \<Rightarrow> pystr"
  http_post :: "nat \<Rightarrow> request \<Rightarrow> http_outcome"

text \<open>
  The state the program changes: the files (name to text; a write creates or replaces,
  and succeeds), the lines printed, the requests sent, and how often the clock was read.
\<close>

record world =
  files :: "pystr \<Rightarrow> pystr option"
  stdout :: "pystr list"
  requests :: "request list"
  clock_reads :: nat

definition print_line :: "pystr \<Rightarrow> world \<Rightarrow> world" where
  "print_line s w = w\<lparr>stdout := stdout w @ [s]\<rparr>"

definition write_file :: "pystr \<Rightarrow> pystr \<Rightarrow> world \<Rightarrow> world" where
  "write_file filename s w = w\<lparr>files := (files w)(filename \<mapsto> s)\<rparr>"

text \<open>\<open>datetime.now().strftime("%Y%m%d_%H%M%S")\<close>: one reading of the clock.\<close>

definition now_timestamp :: "env \<Rightarrow> world \<Rightarrow> pystr \<times> world" where
  "now_timestamp e w = (strftime_now e (clock_reads w), w\<lparr>clock_reads := Suc (clock_reads w)\<rparr>)"

section \<open>Python operations on untyped values\<close>

text \<open>Truth value of a value in a condition.\<close>

fun py_truthy :: "json \<Rightarrow> bool" where
  "py_truthy JNull = False"
| "py_truthy (JBool b) = b"
| "py_truthy (JInt i) = (i \<noteq> 0)"
| "py_truthy (JReal r) = (r \<noteq> 0)"
| "py_truthy (JStr s) = (s \<noteq> [])"
| "py_truthy (JArr xs) = (xs \<noteq> [])"
| "py_truthy (JObj kvs) = (kvs \<noteq> [])"

text \<open>
  \<open>key in v\<close> for a string key: a key of a dictionary, an element of a list, a
  substring of a string; a \<open>TypeError\<close> on anything else.
\<close>

fun py_contains :: "env \<Rightarrow> pystr \<Rightarrow> json \<Rightarrow> exn + bool" where
  "py_contains e k (JObj kvs) = Inr (map_of kvs k \<noteq> None)"
| "py_contains e k (JArr xs) = Inr (JStr k \<in> set xs)"
| "py_contains e k (JStr s) = Inr (sublist k s)"
| "py_contains e k v = Inl (Exn TypeError (error_text e TypeError v))"

text \<open>
  \<open>v[key]\<close> for a string key: the member of a dictionary, a \<open>KeyError\<close> when it has
  none; a \<open>TypeError\<close> on a list or a string (their indices are integers) and on
  every value that cannot be subscripted.
\<close>

fun py_getitem :: "env \<Rightarrow> json \<Rightarrow> pystr \<Rightarrow> exn + json" where
  "py_getitem e (JObj kvs) k =
     (case map_of kvs k of
        Some x \<Rightarrow> Inr x
      | None \<Rightarrow> Inl (Exn KeyError (error_text e KeyError (JStr k))))"
| "py_getitem e v k = Inl (Exn TypeError (error_text e TypeError v))"

text \<open>
  \<open>v[0]\<close>: the first element of a list, the first character of a string (as a string),
  an \<open>IndexError\<close> when they are empty; a \<open>KeyError\<close> on a dictionary read from JSON
  (its keys are strings); a \<open>TypeError\<close> on the rest.
\<close>

fun py_getitem0 :: "env \<Rightarrow> json \<Rightarrow> exn + json" where
  "py_getitem0 e (JArr (x # xs)) = Inr x"
| "py_getitem0 e (JArr []) = Inl (Exn IndexError (error_text e IndexError (JArr [])))"
| "py_getitem0 e (JStr (c # cs)) = Inr (JStr [c])"
| "py_getitem0 e (JStr []) = Inl (Exn IndexError (error_text e IndexError (JStr [])))"
| "py_getitem0 e (JObj kvs) = Inl (Exn KeyError (error_text e KeyError (JInt 0)))"
| "py_getitem0 e v = Inl (Exn TypeError (error_text e TypeError v))"

text \<open>\<open>v.get(key, default)\<close>: only a dictionary has the method.\<close>

fun py_get :: "env \<Rightarrow> json \<Rightarrow> pystr \<Rightarrow> json \<Rightarrow> exn + json" where
  "py_get e (JObj kvs) k d = Inr (case map_of kvs k of Some x \<Rightarrow> x | None \<Rightarrow> d)"
| "py_get e v k d = Inl (Exn AttributeError (error_text e AttributeError v))"

section \<open>Profile store\<close>

text \<open>A profile as the dictionary that is written to and read from \<open>profile.json\<close>.\<close>

definition profile_json :: "profile \<Rightarrow> json" where
  "profile_json p =
     JObj [(asc ''name'', JStr (name p)), (asc ''age'', JInt (age p)),
           (asc ''profession'', JStr (profession p)),
           (asc ''interests'', JArr (map JStr (interests p))),
           (asc ''memory'', JArr (memory p))]"

text \<open>
  The default profile of \<open>load_profile\<close>: the name is U+7528 U+6237, the profession and
  the one interest are U+672A U+8BBE U+7F6E.
\<close>

definition default_profile :: profile where
  "default_profile =
     \<lparr>name = [0x7528, 0x6237], age = 20, profession = [0x672A, 0x8BBE, 0x7F6E],
      interests = [[0x672A, 0x8BBE, 0x7F6E]], memory = []\<rparr>"

text \<open>
  \<open>load_profile\<close> returns a value and changes the world. \<open>open\<close> for reading raises
  \<open>FileNotFoundError\<close> when the file is absent; \<open>json.load\<close> and the subscript may
  raise. The first handler takes a \<open>FileNotFoundError\<close>: it prints a line (U+9519
  U+8BEF, a colon, \<open>profile.json\<close> and five more characters), writes the default
  document and returns the default profile. The second handler takes every other
  exception: it prints a line with \<open>str(e)\<close> and returns \<open>None\<close>.
\<close>

definition load_profile_try :: "env \<Rightarrow> world \<Rightarrow> exn + json" where
  "load_profile_try e w =
     (case files w (asc ''profile.json'') of
        None \<Rightarrow> Inl (Exn FileNotFoundError (error_text e FileNotFoundError (JStr (asc ''profile.json''))))
      | Some s \<Rightarrow>
          (case json_loads e s of
             Inl x \<Rightarrow> Inl x
           | Inr pr \<Rightarrow> py_getitem e pr (asc ''my_profile'')))"

definition load_profile :: "env \<Rightarrow> world \<Rightarrow> json \<times> world" where
  "load_profile e w =
     (case load_profile_try e w of
        Inr v \<Rightarrow> (v, w)
      | Inl x \<Rightarrow>
          if exc_class_of x = FileNotFoundError then
            (let w1 = print_line ([0x9519, 0x8BEF, 58, 32] @ asc ''profile.json'' @
                        [32, 0x6587, 0x4EF6, 0x672A, 0x627E, 0x5230]) w;
                 default_doc = JObj [(asc ''my_profile'', profile_json default_profile)];
                 w2 = write_file (asc ''profile.json'') (json_dump_indent e default_doc) w1
             in (profile_json default_profile, w2))
          else
            (JNull,
             print_line ([0x52A0, 0x8F7D, 0x914D, 0x7F6E, 0x6587, 0x4EF6, 0x9519, 0x8BEF, 58, 32] @
                         exc_str x) w))"

section \<open>Persistence layer\<close>

text \<open>
  \<open>save_training_data\<close>: one clock reading, one file. Its handler never runs here,
  since writes succeed.
\<close>

definition save_training_data :: "env \<Rightarrow> pystr \<Rightarrow> profile \<Rightarrow> world \<Rightarrow> world" where
  "save_training_data e message p w =
     (case now_timestamp e w of
        (timestamp, w1) \<Rightarrow>
          (let data = JObj [(asc ''timestamp'', JStr timestamp), (asc ''message'', JStr message),
                            (asc ''profile'', profile_json p)];
               filename = asc ''data/training_data/training_'' @ timestamp @ asc ''.json''
           in write_file filename (json_dump_indent e data) w1))"

text \<open>A conversation as the value \<open>json.dumps\<close> serializes: a list of two-element lists.\<close>

definition conversation_json :: "conversation \<Rightarrow> json" where
  "conversation_json c = JArr (map (\<lambda>t. JArr [JStr (fst t), JStr (snd t)]) c)"

definition part_filename :: "pystr \<Rightarrow> nat \<Rightarrow> pystr" where
  "part_filename base_filename i =
     base_filename @ asc ''_part'' @ str_int (int i + 1) @ asc ''.json''"

text \<open>The loop \<open>for i in range(parts)\<close>, over the indices still to come.\<close>

fun write_parts :: "pystr \<Rightarrow> pystr \<Rightarrow> nat list \<Rightarrow> world \<Rightarrow> world" where
  "write_parts base_filename conversation_str [] w = w"
| "write_parts base_filename conversation_str (i # rest) w =
     (let part = py_slice (i * MAX_CONVERSATION_LENGTH) ((i + 1) * MAX_CONVERSATION_LENGTH)
                   conversation_str;
          filename = part_filename base_filename i
      in write_parts base_filename conversation_str rest (write_file filename part w))"

definition save_conversation :: "env \<Rightarrow> conversation \<Rightarrow> world \<Rightarrow> world" where
  "save_conversation e conversation w =
     (case now_timestamp e w of
        (timestamp, w1) \<Rightarrow>
          (let base_filename = asc ''data/conversations/conversation_'' @ timestamp;
               conversation_str = json_dumps e (conversation_json conversation)
           in if length conversation_str > MAX_CONVERSATION_LENGTH then
                (let parts = length conversation_str div MAX_CONVERSATION_LENGTH + 1
                 in write_parts base_filename conversation_str [0..<parts] w1)
              else write_file (base_filename @ asc ''.json'') conversation_str w1))"

section \<open>Streaming API client\<close>

text \<open>
  A generator run to exhaustion: the values it yielded, in order, and whether it then
  ended or let an exception out.
\<close>

datatype 'a generated = Exhausted "'a list" | Raised "'a list" exn

fun yielded :: "'a generated \<Rightarrow> 'a list" where
  "yielded (Exhausted ys) = ys"
| "yielded (Raised ys x) = ys"

text \<open>
  The statements of \<open>call_deepseek_api_stream\<close> before its \<open>try\<close>: the message list
  and the request body. Two of them count tokens, so they may raise.
\<close>

definition api_request :: "env \<Rightarrow> pystr \<Rightarrow> conversation \<Rightarrow> profile \<Rightarrow> exn + request" where
  "api_request e prompt conversation p =
     (case prepare_api_messages_raising (encode e) conversation p prompt of
        Inl x \<Rightarrow> Inl x
      | Inr msgs \<Rightarrow>
          (case count_tokens_raising (encode e) (str_messages e msgs) of
             Inl x \<Rightarrow> Inl x
           | Inr request_tokens \<Rightarrow>
               Inr \<lparr>req_url = asc ''https://api.deepseek.com/v1/chat/completions'',
                    req_authorization = asc ''Bearer sk-********************************'',
                    req_content_type = asc ''application/json'',
                    req_model = asc ''deepseek-chat'',
                    req_messages = msgs,
                    req_stream = True,
                    req_max_tokens = min 2000 (MAX_TOKENS - request_tokens)\<rparr>))"

text \<open>
  What one parsed chunk contributes: \<open>"choices" in chunk and chunk["choices"]\<close>, then
  \<open>chunk["choices"][0].get("delta", {}).get("content", "")\<close>, yielded when it is
  true in a condition. Every step may raise.
\<close>

definition delta_content :: "env \<Rightarrow> json \<Rightarrow> exn + json option" where
  "delta_content e chunk =
     (case py_contains e (asc ''choices'') chunk of
        Inl x \<Rightarrow> Inl x
      | Inr False \<Rightarrow> Inr None
      | Inr True \<Rightarrow>
          (case py_getitem e chunk (asc ''choices'') of
             Inl x \<Rightarrow> Inl x
           | Inr choices \<Rightarrow>
               if \<not> py_truthy choices then Inr None
               else
                 (case py_getitem0 e choices of
                    Inl x \<Rightarrow> Inl x
                  | Inr choice \<Rightarrow>
                      (case py_get e choice (asc ''delta'') (JObj []) of
                         Inl x \<Rightarrow> Inl x
                       | Inr delta \<Rightarrow>
                           (case py_get e delta (asc ''content'') (JStr []) of
                              Inl x \<Rightarrow> Inl x
                            | Inr c \<Rightarrow> if py_truthy c then Inr (Some c) else Inr None)))))"

text \<open>
  The inner \<open>try\<close>: \<open>json.loads\<close>, then the chunk. Its handler swallows a
  \<open>JSONDecodeError\<close> and nothing else.
\<close>

definition chunk_try :: "env \<Rightarrow> pystr \<Rightarrow> exn + json option" where
  "chunk_try e json_data =
     (case (case json_loads e json_data of
              Inl x \<Rightarrow> Inl x
            | Inr chunk \<Rightarrow> delta_content e chunk) of
        Inl x \<Rightarrow> if exc_class_of x = JSONDecodeError then Inr None else Inl x
      | Inr r \<Rightarrow> Inr r)"

text \<open>One line of the response: what it yields, if anything, or the exception it raises.\<close>

definition stream_line :: "env \<Rightarrow> nat list \<Rightarrow> exn + json option" where
  "stream_line e line =
     (if line = [] then Inr None
      else
        (case utf8_decode e line of
           Inl x \<Rightarrow> Inl x
         | Inr decoded_line \<Rightarrow>
             if \<not> prefix (asc ''data:'') decoded_line then Inr None
             else
               (let json_data = py_strip (drop 5 decoded_line)
                in if json_data = asc ''[DONE]'' then Inr None
                   else chunk_try e json_data)))"

text \<open>The loop over \<open>response.iter_lines()\<close>: the fragments yielded, and the exception that ended it, if one did.\<close>

fun stream_lines :: "env \<Rightarrow> nat list list \<Rightarrow> json list \<times> exn option" where
  "stream_lines e [] = ([], None)"
| "stream_lines e (line # rest) =
     (case stream_line e line of
        Inl x \<Rightarrow> ([], Some x)
      | Inr None \<Rightarrow> stream_lines e rest
      | Inr (Some c) \<Rightarrow> (case stream_lines e rest of (ys, r) \<Rightarrow> (c # ys, r)))"

text \<open>
  The body of the outer \<open>try\<close>, given the outcome of the request. The fragment for a
  status other than 200 is \<open>[API\<close>, a space, U+9519 U+8BEF, \<open>]\<close>, a space, U+72B6 U+6001
  U+7801, a colon, a space and the status code.
\<close>

definition stream_try :: "env \<Rightarrow> http_outcome \<Rightarrow> json list \<times> exn option" where
  "stream_try e outcome =
     (case outcome of
        PostRaises x \<Rightarrow> ([], Some x)
      | Response status_code lines failure \<Rightarrow>
          if status_code = 200 then
            (case stream_lines e lines of
               (ys, Some x) \<Rightarrow> (ys, Some x)
             | (ys, None) \<Rightarrow> (ys, failure))
          else
            ([JStr (asc ''[API '' @ [0x9519, 0x8BEF] @ asc ''] '' @ [0x72B6, 0x6001, 0x7801, 58, 32] @
                    str_int status_code)], None))"

text \<open>
  \<open>call_deepseek_api_stream\<close>, run to exhaustion. An exception of the statements
  before the \<open>try\<close> leaves the generator at the first \<open>next\<close>, with nothing yielded
  and no request sent. Otherwise the request is sent, the \<open>try\<close> body runs, and the
  handler \<open>except Exception\<close> turns an exception into one more fragment: \<open>[\<close>, U+8FDE
  U+63A5 U+9519 U+8BEF, \<open>]\<close>, a space and \<open>str(e)\<close>.
\<close>

definition call_deepseek_api_stream ::
  "env \<Rightarrow> pystr \<Rightarrow> conversation \<Rightarrow> profile \<Rightarrow> world \<Rightarrow> json generated \<times> world" where
  "call_deepseek_api_stream e prompt conversation p w =
     (case api_request e prompt conversation p of
        Inl x \<Rightarrow> (Raised [] x, w)
      | Inr data \<Rightarrow>
          (let w1 = w\<lparr>requests := requests w @ [data]\<rparr>
           in case stream_try e (http_post e (length (requests w)) data) of
                (ys, None) \<Rightarrow> (Exhausted ys, w1)
              | (ys, Some x) \<Rightarrow>
                  if is_Exception (exc_class_of x)
                  then (Exhausted (ys @ [JStr ([91, 0x8FDE, 0x63A5, 0x9519, 0x8BEF, 93, 32] @
                                               exc_str x)]), w1)
                  else (Raised ys x, w1)))"

section \<open>Conversation orchestrator\<close>

text \<open>
  The loop of \<open>respond\<close> over the fragments: \<open>bot_message += chunk\<close> raises a
  \<open>TypeError\<close> when the fragment is not a string; otherwise the grown conversation is
  yielded. The result is the yields, and the final \<open>bot_message\<close> or the exception.
\<close>

fun respond_loop ::
  "env \<Rightarrow> conversation \<Rightarrow> pystr \<Rightarrow> pystr \<Rightarrow> json list \<Rightarrow> conversation list \<times> (exn + pystr)" where
  "respond_loop e trimmed_history message bot_message [] = ([], Inr bot_message)"
| "respond_loop e trimmed_history message bot_message (JStr s # rest) =
     (case respond_loop e trimmed_history message (bot_message @ s) rest of
        (ys, r) \<Rightarrow> ((trimmed_history @ [(message, bot_message @ s)]) # ys, r))"
| "respond_loop e trimmed_history message bot_message (chunk # rest) =
     ([], Inl (Exn TypeError (error_text e TypeError chunk)))"

text \<open>
  The body of the \<open>try\<close> of \<open>respond\<close>: the conversations yielded, the exception
  raised if any, and the world afterwards.
\<close>

definition respond_try ::
  "env \<Rightarrow> pystr \<Rightarrow> conversation \<Rightarrow> profile \<Rightarrow> world \<Rightarrow> conversation list \<times> exn option \<times> world" where
  "respond_try e message chat_history p w =
     (let w1 = save_training_data e message p w
      in case trim_conversation_raising (encode e) chat_history (MAX_TOKENS div 2) of
           Inl x \<Rightarrow> ([], Some x, w1)
         | Inr trimmed_history \<Rightarrow>
             (case call_deepseek_api_stream e message trimmed_history p w1 of
                (g, w2) \<Rightarrow>
                  (case respond_loop e trimmed_history message [] (yielded g) of
                     (ys, Inl x) \<Rightarrow> (ys, Some x, w2)
                   | (ys, Inr bot_message) \<Rightarrow>
                       (case g of
                          Raised fs x \<Rightarrow> (ys, Some x, w2)
                        | Exhausted fs \<Rightarrow>
                            (let full_conversation = trimmed_history @ [(message, bot_message)];
                                 w3 = save_conversation e full_conversation w2
                             in (ys @ [full_conversation], None, w3))))))"

text \<open>
  \<open>respond\<close>, run to exhaustion: the conversations it yields and the world afterwards.
  An empty or all-whitespace message yields the history and returns. The handler prints
  U+5BF9 U+8BDD U+51FA U+9519, a colon, a space and \<open>str(e)\<close>, and yields the history
  with a turn whose bot part is U+53D1 U+751F U+9519 U+8BEF, a colon, a space and
  \<open>str(e)\<close>.
\<close>

definition respond ::
  "env \<Rightarrow> pystr \<Rightarrow> conversation \<Rightarrow> profile \<Rightarrow> world \<Rightarrow> conversation list \<times> world" where
  "respond e message chat_history p w =
     (if py_strip message = [] then ([chat_history], w)
      else
        (case respond_try e message chat_history p w of
           (ys, None, w') \<Rightarrow> (ys, w')
         | (ys, Some x, w') \<Rightarrow>
             (ys @ [chat_history @
                      [(message, [0x53D1, 0x751F, 0x9519, 0x8BEF, 58, 32] @ exc_str x)]],
              print_line ([0x5BF9, 0x8BDD, 0x51FA, 0x9519, 58, 32] @ exc_str x) w')))"

section \<open>Example inputs\<close>

text \<open>Three turns: \<open>("a", "b")\<close>, \<open>("ab", "cde")\<close> and \<open>("g", "h")\<close>.\<close>

definition example_conversation :: conversation where
  "example_conversation = [([97], [98]), ([97, 98], [99, 100, 101]), ([103], [104])]"

text \<open>
  Two turns, the older with a user message of 3000 letters: at one token per code point
  it does not fit into a budget of 2000 tokens.
\<close>

definition long_history :: conversation where
  "long_history = [(replicate 3000 97, asc ''ok''), ([103], [104])]"

text \<open>A profile whose name is one million times the letter a.\<close>

definition long_name_profile :: profile where
  "long_name_profile =
     \<lparr>name = replicate 1000000 97, age = 20, profession = [], interests = [], memory = []\<rparr>"

section \<open>Auxiliary notions\<close>

text \<open>
The number a string of decimal digits denotes; it inverts \<open>str_nat\<close>.
\<close>

definition decimal_value :: "pystr \<Rightarrow> nat" where
  "decimal_value ds = foldl (\<lambda>a c. 10 * a + (c - 48)) 0 ds"

text \<open>
The text of a fragment that is a string.
\<close>

definition fragment_text :: "json \<Rightarrow> pystr" where
  "fragment_text f = (case f of JStr s \<Rightarrow> s | _ \<Rightarrow> [])"

section \<open>An example environment\<close>

text \<open>
  A small environment to run the program in: every code point is one token, the
  serializer returns 25000 letters whatever the value, the parser knows two chunks and the
  number 5, bytes decode to themselves, the clock stands still and the endpoint answers
  with status 500. In \<open>streaming_env\<close> the endpoint answers with status 200 and five
  lines; in \<open>number_env\<close> it answers with status 200 and one chunk whose content is the
  number 5; in \<open>refusing_env\<close> the encoder raises a \<open>ValueError\<close> on a text that
  contains \<open><|endoftext|>\<close>, as tiktoken's does.
\<close>

definition hi_chunk_text :: pystr where
  \<open>hi_chunk_text = asc ''{"choices":[{"delta":{"content":"Hi"}}]}''\<close>

definition hi_chunk :: json where
  "hi_chunk = JObj [(asc ''choices'', JArr [JObj [(asc ''delta'', JObj [(asc ''content'', JStr (asc ''Hi''))])]])]"

definition five_chunk_text :: pystr where
  \<open>five_chunk_text = asc ''{"choices":[{"delta":{"content":5}}]}''\<close>

definition five_chunk :: json where
  "five_chunk = JObj [(asc ''choices'', JArr [JObj [(asc ''delta'', JObj [(asc ''content'', JInt 5)])]])]"

definition example_env :: env where
  "example_env =
     \<lparr>encode = (\<lambda>s. Inr s),
      json_dumps = (\<lambda>v. replicate 25000 97),
      json_dump_indent = (\<lambda>v. asc ''{}''),
      json_loads = (\<lambda>s. if s = hi_chunk_text then Inr hi_chunk
                         else if s = five_chunk_text then Inr five_chunk
                         else if s = asc ''5'' then Inr (JInt 5)
                         else Inl (Exn JSONDecodeError (asc ''Expecting value''))),
      utf8_decode = (\<lambda>bs. Inr bs),
      str_messages = (\<lambda>ms. concat (map content ms)),
      error_text = (\<lambda>c v. asc ''error''),
      strftime_now = (\<lambda>n. asc ''20240101_000000''),
      http_post = (\<lambda>n r. Response 500 [] None)\<rparr>"

definition streaming_env :: env where
  "streaming_env =
     example_env\<lparr>http_post :=
       (\<lambda>n r. Response 200
          [asc ''data: '' @ hi_chunk_text, [], asc ''data: {bad'', asc ''data: [DONE]'',
           asc ''data:'' @ hi_chunk_text] None)\<rparr>"

definition number_env :: env where
  "number_env =
     example_env\<lparr>http_post := (\<lambda>n r. Response 200 [asc ''data: '' @ five_chunk_text] None)\<rparr>"

definition refusing_env :: env where
  "refusing_env =
     example_env\<lparr>encode :=
       (\<lambda>s. if sublist (asc ''<|endoftext|>'') s
            then Inl (Exn ValueError (asc ''disallowed special token''))
            else Inr s)\<rparr>"

definition empty_world :: world where
  "empty_world = \<lparr>files = (\<lambda>f. None), stdout = [], requests = [], clock_reads = 0\<rparr>"

section \<open>Trimming a conversation to a token budget\<close>

lemma count_tokens_nonneg: "0 \<le> count_tokens enc s"
  by (simp add: count_tokens_def)

lemma turn_cost_nonneg: "0 \<le> turn_cost enc t"
  by (simp add: turn_cost_def count_tokens_nonneg)

lemma conversation_cost_nonneg: "0 \<le> conversation_cost enc c"
  unfolding conversation_cost_def by (induction c) (simp_all add: turn_cost_nonneg)

lemma conversation_cost_append:
  "conversation_cost enc (xs @ ys) = conversation_cost enc xs + conversation_cost enc ys"
  by (simp add: conversation_cost_def)

lemma conversation_cost_rev: "conversation_cost enc (rev xs) = conversation_cost enc xs"
  unfolding conversation_cost_def by (induction xs) simp_all

lemma conversation_cost_Cons:
  "conversation_cost enc (t # ts) = turn_cost enc t + conversation_cost enc ts"
  by (simp add: conversation_cost_def)

lemma conversation_cost_take_mono:
  "i \<le> j \<Longrightarrow> conversation_cost enc (take i xs) \<le> conversation_cost enc (take j xs)"
proof -
  assume "i \<le> j"
  then have "take j xs = take i xs @ take (j - i) (drop i xs)"
    by (metis le_add_diff_inverse take_add)
  then show ?thesis
    using conversation_cost_nonneg [of enc "take (j - i) (drop i xs)"]
    by (simp add: conversation_cost_append)
qed

lemma trim_loop_shape:
  "\<exists>k\<le>length rs.
      trim_loop enc B rs tot acc = rev (take k rs) @ acc \<and>
      (tot \<le> B \<longrightarrow> tot + conversation_cost enc (take k rs) \<le> B) \<and>
      (k < length rs \<longrightarrow> tot + conversation_cost enc (take (Suc k) rs) > B)"
proof (induction rs arbitrary: tot acc)
  case Nil
  then show ?case by (simp add: conversation_cost_def)
next
  case (Cons item rest)
  obtain u b where item: "item = (u, b)" by (cases item)
  let ?c = "count_tokens enc u + count_tokens enc b"
  have tc: "turn_cost enc item = ?c" by (simp add: item turn_cost_def)
  show ?case
  proof (cases "tot + ?c > B")
    case True
    then show ?thesis
      by (intro exI [of _ 0]) (simp add: item conversation_cost_def tc [unfolded item])
  next
    case False
    from Cons.IH [of "tot + ?c" "item # acc"]
    obtain k where k: "k \<le> length rest"
      "trim_loop enc B rest (tot + ?c) (item # acc) = rev (take k rest) @ item # acc"
      "tot + ?c \<le> B \<longrightarrow> tot + ?c + conversation_cost enc (take k rest) \<le> B"
      "k < length rest \<longrightarrow> tot + ?c + conversation_cost enc (take (Suc k) rest) > B"
      by blast
    show ?thesis
      using False k
      by (intro exI [of _ "Suc k"])
         (auto simp: item conversation_cost_Cons tc [unfolded item] algebra_simps)
  qed
qed


lemma trim_loop_over_budget: "B < tot \<Longrightarrow> trim_loop enc B rs tot acc = acc"
proof (cases rs)
  case Nil
  then show ?thesis by simp
next
  case (Cons item rest)
  assume "B < tot"
  moreover obtain u b where "item = (u, b)" by (cases item)
  ultimately show ?thesis
    using Cons count_tokens_nonneg [of enc u] count_tokens_nonneg [of enc b] by simp
qed

lemma conversation_cost_Nil: "conversation_cost enc [] = 0"
  by (simp add: conversation_cost_def)

lemma suffix_as_rev_take: "suffix ys C \<Longrightarrow> ys = rev (take (length ys) (rev C))"
  by (auto simp: suffix_def)

lemma trim_conversation_shape:
  "\<exists>k\<le>length C.
      trim_conversation enc C B = rev (take k (rev C)) \<and>
      (0 \<le> B \<longrightarrow> conversation_cost enc (take k (rev C)) \<le> B) \<and>
      (k < length C \<longrightarrow> conversation_cost enc (take (Suc k) (rev C)) > B)"
  using trim_loop_shape [of "rev C" enc B 0 "[]"] by (simp add: trim_conversation_def)

lemma trim_conversation_bounds:
  "suffix (trim_conversation enc C B) C \<and>
   (0 \<le> B \<longrightarrow> conversation_cost enc (trim_conversation enc C B) \<le> B) \<and>
   (B < 0 \<longrightarrow> trim_conversation enc C B = []) \<and>
   (\<forall>ys. suffix ys C \<and> length (trim_conversation enc C B) < length ys \<longrightarrow>
      B < conversation_cost enc ys) \<and>
   (trim_conversation enc C B \<noteq> C \<longrightarrow>
      B < turn_cost enc (C ! (length C - Suc (length (trim_conversation enc C B)))) +
          conversation_cost enc (trim_conversation enc C B))"
proof -
  obtain k where k: "k \<le> length C"
    and eq: "trim_conversation enc C B = rev (take k (rev C))"
    and fits: "0 \<le> B \<longrightarrow> conversation_cost enc (take k (rev C)) \<le> B"
    and stop: "k < length C \<longrightarrow> conversation_cost enc (take (Suc k) (rev C)) > B"
    using trim_conversation_shape by blast
  have len: "length (trim_conversation enc C B) = k"
    using k by (simp add: eq)
  have suf: "suffix (trim_conversation enc C B) C"
    unfolding eq by (simp add: rev_take suffix_drop)
  have cost: "0 \<le> B \<longrightarrow> conversation_cost enc (trim_conversation enc C B) \<le> B"
    using fits by (simp add: eq conversation_cost_rev)
  have neg: "B < 0 \<longrightarrow> trim_conversation enc C B = []"
    by (simp add: trim_conversation_def trim_loop_over_budget)
  have longer: "\<forall>ys. suffix ys C \<and> length (trim_conversation enc C B) < length ys \<longrightarrow>
      B < conversation_cost enc ys"
  proof (intro allI impI)
    fix ys assume a: "suffix ys C \<and> length (trim_conversation enc C B) < length ys"
    then have ys: "ys = rev (take (length ys) (rev C))" and lt: "k < length ys"
      using suffix_as_rev_take len by auto
    from a have "length ys \<le> length C" by (auto simp: suffix_def)
    with lt have "k < length C" by simp
    with stop have "B < conversation_cost enc (take (Suc k) (rev C))" by simp
    also have "\<dots> \<le> conversation_cost enc (take (length ys) (rev C))"
      using lt by (intro conversation_cost_take_mono) simp
    also have "\<dots> = conversation_cost enc ys"
      using ys conversation_cost_rev by metis
    finally show "B < conversation_cost enc ys" .
  qed
  have first: "trim_conversation enc C B \<noteq> C \<longrightarrow>
      B < turn_cost enc (C ! (length C - Suc (length (trim_conversation enc C B)))) +
          conversation_cost enc (trim_conversation enc C B)"
  proof
    assume ne: "trim_conversation enc C B \<noteq> C"
    have "k < length C"
    proof (rule ccontr)
      assume "\<not> k < length C"
      with k have "k = length C" by simp
      with eq ne show False by simp
    qed
    with stop have gt: "B < conversation_cost enc (take (Suc k) (rev C))" by simp
    have "take (Suc k) (rev C) = take k (rev C) @ [rev C ! k]"
      using \<open>k < length C\<close> by (simp add: take_Suc_conv_app_nth)
    moreover have "rev C ! k = C ! (length C - Suc k)"
      using \<open>k < length C\<close> by (simp add: rev_nth)
    ultimately have "conversation_cost enc (take (Suc k) (rev C)) =
        conversation_cost enc (take k (rev C)) + turn_cost enc (C ! (length C - Suc k))"
      by (simp add: conversation_cost_append conversation_cost_Cons conversation_cost_Nil)
    with gt show "B < turn_cost enc (C ! (length C - Suc (length (trim_conversation enc C B)))) +
          conversation_cost enc (trim_conversation enc C B)"
      by (simp add: len) (simp add: eq conversation_cost_rev)
  qed
  from suf cost neg longer first show ?thesis by blast
qed


text \<open>
  Claim C1: for every conversation \<open>C\<close> and every token budget \<open>B\<close> (a number of
  tokens, so \<open>B \<ge> 0\<close>; the program's one call passes \<open>MAX_TOKENS // 2\<close>),
  \<open>trim_conversation(C, B)\<close> is a suffix of \<open>C\<close> (contiguous, in the original order)
  whose total token cost is at most \<open>B\<close>, and it is the longest such suffix: no suffix of
  \<open>C\<close> within the budget is longer, since every strictly longer suffix costs more than
  \<open>B\<close>. When a turn was dropped, the most recent dropped turn is one whose addition to
  the kept turns exceeds \<open>B\<close>: the walk from the most recent turn stopped there, whatever
  the older turns cost.
\<close>

theorem trim_conversation_longest_suffix:
  assumes "0 \<le> B"
  shows "suffix (trim_conversation enc C B) C \<and>
         conversation_cost enc (trim_conversation enc C B) \<le> B \<and>
         (\<forall>ys. suffix ys C \<and> conversation_cost enc ys \<le> B \<longrightarrow>
            length ys \<le> length (trim_conversation enc C B)) \<and>
         (\<forall>ys. suffix ys C \<and> length (trim_conversation enc C B) < length ys \<longrightarrow>
            B < conversation_cost enc ys) \<and>
         (trim_conversation enc C B \<noteq> C \<longrightarrow>
            B < turn_cost enc (C ! (length C - Suc (length (trim_conversation enc C B)))) +
                conversation_cost enc (trim_conversation enc C B))"
proof -
  note b = trim_conversation_bounds [of enc C B]
  have longest: "\<forall>ys. suffix ys C \<and> conversation_cost enc ys \<le> B \<longrightarrow>
            length ys \<le> length (trim_conversation enc C B)"
  proof (intro allI impI)
    fix ys assume a: "suffix ys C \<and> conversation_cost enc ys \<le> B"
    show "length ys \<le> length (trim_conversation enc C B)"
    proof (rule ccontr)
      assume "\<not> length ys \<le> length (trim_conversation enc C B)"
      with a b have "B < conversation_cost enc ys" by simp
      with a show False by simp
    qed
  qed
  from assms b longest show ?thesis by blast
qed

text \<open>
  The theorem at a conversation of three turns costing 2, 5 and 2 tokens, with the
  budget 5: the last turn is kept, the walk stops at the middle turn, and the oldest turn
  is dropped although it would fit beside the kept one.
\<close>

theorem trim_conversation_longest_suffix_witness:
  "trim_conversation (\<lambda>s. s) example_conversation 5 = [([103], [104])] \<and>
   suffix [([103], [104])] example_conversation \<and>
   conversation_cost (\<lambda>s. s) [([103], [104])] \<le> 5 \<and>
   5 < conversation_cost (\<lambda>s. s) example_conversation \<and>
   5 < turn_cost (\<lambda>s. s) ([97, 98], [99, 100, 101]) + conversation_cost (\<lambda>s. s) [([103], [104])] \<and>
   turn_cost (\<lambda>s. s) ([97], [98]) + conversation_cost (\<lambda>s. s) [([103], [104])] \<le> 5"
proof -
  have e: "trim_conversation (\<lambda>s. s) example_conversation 5 = [([103], [104])]"
    by (simp add: trim_conversation_def count_tokens_def example_conversation_def)
  have s: "suffix example_conversation example_conversation" by simp
  have n: "[([103::nat], [104::nat])] \<noteq> example_conversation"
    by (simp add: example_conversation_def)
  have i: "example_conversation ! (length example_conversation - Suc (length [([103::nat], [104::nat])]))
      = ([97, 98], [99, 100, 101])"
    by (simp add: example_conversation_def)
  have l: "length [([103::nat], [104::nat])] < length example_conversation"
    by (simp add: example_conversation_def)
  have f: "turn_cost (\<lambda>s. s) ([97], [98]) + conversation_cost (\<lambda>s. s) [([103], [104])] \<le> 5"
    by (simp add: turn_cost_def conversation_cost_def count_tokens_def)
  have h: "(0::int) \<le> 5" by simp
  from trim_conversation_longest_suffix [OF h, of "\<lambda>s. s" example_conversation]
  show ?thesis
    unfolding e using s n i l f by auto
qed
section \<open>Assembling the outbound message list\<close>

lemma messages_cost_append:
  "messages_cost enc (xs @ ys) = messages_cost enc xs + messages_cost enc ys"
  by (simp add: messages_cost_def)

lemma messages_cost_turns:
  "messages_cost enc (concat (map turn_messages ts)) = conversation_cost enc ts"
  unfolding messages_cost_def conversation_cost_def
  by (induction ts)
     (simp_all add: turn_messages_def turn_cost_def user_message_def assistant_message_def)

lemma messages_cost_nonneg: "0 \<le> messages_cost enc ms"
  unfolding messages_cost_def by (induction ms) (simp_all add: count_tokens_nonneg)

lemma history_loop_shape:
  "\<exists>k\<le>length ts.
      history_loop enc ts msgs used =
        (msgs @ concat (map turn_messages (take k ts)),
         used + conversation_cost enc (take k ts)) \<and>
      (k = 0 \<or> used + conversation_cost enc (take k ts) \<le> MAX_TOKENS) \<and>
      (k < length ts \<longrightarrow> MAX_TOKENS < used + conversation_cost enc (take (Suc k) ts))"
proof (induction ts arbitrary: msgs used)
  case Nil
  then show ?case by (simp add: conversation_cost_Nil)
next
  case (Cons item rest)
  obtain u b where item: "item = (u, b)" by (cases item)
  let ?c = "count_tokens enc u + count_tokens enc b"
  have tc: "turn_cost enc (u, b) = ?c" by (simp add: turn_cost_def)
  have tm: "turn_messages (u, b) = [user_message u, assistant_message b]"
    by (simp add: turn_messages_def)
  show ?case
  proof (cases "used + ?c > MAX_TOKENS")
    case True
    then show ?thesis
      by (intro exI [of _ 0]) (simp add: item conversation_cost_Cons conversation_cost_Nil tc)
  next
    case False
    from Cons.IH [of "msgs @ [user_message u, assistant_message b]" "used + ?c"]
    obtain k where k: "k \<le> length rest"
      "history_loop enc rest (msgs @ [user_message u, assistant_message b]) (used + ?c) =
         ((msgs @ [user_message u, assistant_message b]) @ concat (map turn_messages (take k rest)),
          used + ?c + conversation_cost enc (take k rest))"
      "k = 0 \<or> used + ?c + conversation_cost enc (take k rest) \<le> MAX_TOKENS"
      "k < length rest \<longrightarrow> MAX_TOKENS < used + ?c + conversation_cost enc (take (Suc k) rest)"
      by blast
    show ?thesis
      using False k
      by (intro exI [of _ "Suc k"])
         (auto simp: item conversation_cost_Cons conversation_cost_Nil tc tm algebra_simps)
  qed
qed

lemma history_messages_shape:
  "\<exists>k\<le>length (py_last_n MAX_HISTORY_ITEMS c).
      history_messages enc c p =
        (system_prompt p # concat (map turn_messages (take k (py_last_n MAX_HISTORY_ITEMS c))),
         count_tokens enc (content (system_prompt p)) +
           conversation_cost enc (take k (py_last_n MAX_HISTORY_ITEMS c))) \<and>
      (k = 0 \<or> count_tokens enc (content (system_prompt p)) +
           conversation_cost enc (take k (py_last_n MAX_HISTORY_ITEMS c)) \<le> MAX_TOKENS)"
  using history_loop_shape [of "py_last_n MAX_HISTORY_ITEMS c" enc "[system_prompt p]"
      "count_tokens enc (content (system_prompt p))"]
  unfolding history_messages_def by auto

lemma messages_cost_Cons:
  "messages_cost enc (m # ms) = count_tokens enc (content m) + messages_cost enc ms"
  by (simp add: messages_cost_def)

lemma history_messages_tokens_used:
  "snd (history_messages enc c p) = messages_cost enc (fst (history_messages enc c p))"
proof -
  obtain k where "history_messages enc c p =
        (system_prompt p # concat (map turn_messages (take k (py_last_n MAX_HISTORY_ITEMS c))),
         count_tokens enc (content (system_prompt p)) +
           conversation_cost enc (take k (py_last_n MAX_HISTORY_ITEMS c)))"
    using history_messages_shape [of c enc p] by blast
  then show ?thesis
    by (simp add: messages_cost_Cons messages_cost_turns)
qed

lemma role_turn_messages_not_system:
  "x \<in> set (concat (map turn_messages ts)) \<Longrightarrow> role x \<noteq> asc ''system''"
  by (auto simp: turn_messages_def user_message_def assistant_message_def asc_def)

lemma role_turn_messages:
  "x \<in> set (concat (map turn_messages ts)) \<Longrightarrow> role x = asc ''user'' \<or> role x = asc ''assistant''"
  by (auto simp: turn_messages_def user_message_def assistant_message_def)

lemma role_literals:
  "asc ''user'' \<noteq> asc ''system''" "asc ''assistant'' \<noteq> asc ''system''"
  "asc ''user'' \<noteq> asc ''assistant''"
  by (simp_all add: asc_def)

lemma name_within_system_prompt: "length (name p) \<le> length (content (system_prompt p))"
  by (simp add: system_prompt_def)

lemma default_system_prompt_cost:
  "count_tokens (\<lambda>s. s) (content (system_prompt default_profile)) = 56"
  by (simp add: count_tokens_def system_prompt_def default_profile_def str_int_def
      str_nat.simps asc_def)

lemma example_history:
  "history_messages (\<lambda>s. s) example_conversation default_profile =
     (system_prompt default_profile # concat (map turn_messages example_conversation), 65)"
  apply (simp add: history_messages_def py_last_n_def example_conversation_def
      default_system_prompt_cost MAX_HISTORY_ITEMS_def)
  apply (simp add: count_tokens_def MAX_TOKENS_def turn_messages_def)
  done

text \<open>
  Claim C2, as the specification states it, promises that the total token cost of the
  list \<open>prepare_api_messages\<close> returns never exceeds \<open>MAX_TOKENS\<close>. The system
  message is put into the list before any check, so a profile whose system prompt alone
  costs more than \<open>MAX_TOKENS\<close> gives a list above the ceiling. Here the name is one
  million letters, the conversation and the new message are empty, and every code point
  is one token; any tokenizer whose tokens cover at most 249 characters puts this prompt
  above the ceiling of 4000 tokens as well.
\<close>

theorem prepare_api_messages_over_ceiling:
  "\<not> messages_cost (\<lambda>s. s) (prepare_api_messages (\<lambda>s. s) [] long_name_profile [])
       \<le> MAX_TOKENS"
proof -
  have "length (name long_name_profile) = 1000000"
    by (simp add: long_name_profile_def)
  with name_within_system_prompt [of long_name_profile]
  have big: "MAX_TOKENS < count_tokens (\<lambda>s. s) (content (system_prompt long_name_profile))"
    by (simp add: count_tokens_def MAX_TOKENS_def)
  then have "prepare_api_messages (\<lambda>s. s) [] long_name_profile [] =
      [system_prompt long_name_profile]"
    by (simp add: prepare_api_messages_def history_messages_def py_last_n_def count_tokens_def)
  with big show ?thesis
    by (simp add: messages_cost_def)
qed

text \<open>
  Claim C2, amended: for every conversation, profile and new message, the list returned
  by \<open>prepare_api_messages\<close> begins with the system message, whose role is
  \<open>system\<close>, and no later message has that role; the total token cost of the list, the
  sum of \<open>count_tokens\<close> over the contents, never exceeds the larger of
  \<open>MAX_TOKENS\<close> and the cost of the system prompt alone. So it never exceeds
  \<open>MAX_TOKENS\<close> when the system prompt itself fits.
\<close>

theorem prepare_api_messages_system_and_cost:
  "\<exists>rest. prepare_api_messages enc c p m = system_prompt p # rest \<and>
      role (system_prompt p) = asc ''system'' \<and>
      (\<forall>x\<in>set rest. role x \<noteq> asc ''system'') \<and>
      messages_cost enc (prepare_api_messages enc c p m)
        \<le> max MAX_TOKENS (count_tokens enc (content (system_prompt p)))"
proof -
  let ?w = "py_last_n MAX_HISTORY_ITEMS c"
  let ?s = "count_tokens enc (content (system_prompt p))"
  obtain k where k: "k \<le> length ?w"
    and h: "history_messages enc c p =
        (system_prompt p # concat (map turn_messages (take k ?w)),
         ?s + conversation_cost enc (take k ?w))"
    and b: "k = 0 \<or> ?s + conversation_cost enc (take k ?w) \<le> MAX_TOKENS"
    using history_messages_shape by blast
  let ?h = "concat (map turn_messages (take k ?w))"
  let ?t = "if count_tokens enc m + (?s + conversation_cost enc (take k ?w)) < MAX_TOKENS
            then [user_message m] else []"
  have eq: "prepare_api_messages enc c p m = system_prompt p # (?h @ ?t)"
    by (simp add: prepare_api_messages_def h)
  have r: "\<forall>x\<in>set (?h @ ?t). role x \<noteq> asc ''system''"
    using role_turn_messages_not_system [of _ "take k ?w"] role_literals
    by (auto simp: user_message_def simp del: set_concat)
  have cost: "messages_cost enc (system_prompt p # (?h @ ?t))
      = ?s + conversation_cost enc (take k ?w) + messages_cost enc ?t"
    by (simp add: messages_cost_Cons messages_cost_append messages_cost_turns)
  have bound: "?s + conversation_cost enc (take k ?w) + messages_cost enc ?t \<le> max MAX_TOKENS ?s"
  proof (cases "count_tokens enc m + (?s + conversation_cost enc (take k ?w)) < MAX_TOKENS")
    case True
    then show ?thesis
      by (simp add: messages_cost_def user_message_def)
  next
    case False
    then have "messages_cost enc ?t = 0" by (simp add: messages_cost_def)
    with b show ?thesis by (auto simp: conversation_cost_Nil)
  qed
  show ?thesis
    using eq r cost bound by (intro exI [of _ "?h @ ?t"]) (simp add: system_prompt_def)
qed

text \<open>
  The theorem at the default profile (system prompt of 56 code points), the example
  conversation and the new message \<open>hi\<close>, one token per code point: the prompt fits,
  and so does the whole list.
\<close>

theorem prepare_api_messages_system_and_cost_witness:
  "count_tokens (\<lambda>s. s) (content (system_prompt default_profile)) \<le> MAX_TOKENS \<and>
   messages_cost (\<lambda>s. s)
     (prepare_api_messages (\<lambda>s. s) example_conversation default_profile [104, 105])
     \<le> MAX_TOKENS \<and>
   (\<exists>rest. prepare_api_messages (\<lambda>s. s) example_conversation default_profile [104, 105] =
        system_prompt default_profile # rest \<and>
      (\<forall>x\<in>set rest. role x \<noteq> asc ''system''))"
  using prepare_api_messages_system_and_cost
          [of "\<lambda>s. s" example_conversation default_profile "[104, 105]"]
        default_system_prompt_cost
  by (auto simp: MAX_TOKENS_def)

text \<open>
  Claim C3: for every conversation, profile and new message, the running total
  \<open>tokens_used\<close> at the end of the history loop is the token cost of the system
  message and the included history messages, and \<open>prepare_api_messages\<close> appends the
  new user message exactly when \<open>count_tokens(new_message)\<close> plus that total is
  strictly less than \<open>MAX_TOKENS\<close>. Otherwise nothing is appended: the list is the
  system message and the history messages alone, which do not depend on the new message
  (it is dropped whole, not truncated).
\<close>

theorem prepare_api_messages_new_message:
  "snd (history_messages enc c p) = messages_cost enc (fst (history_messages enc c p)) \<and>
   prepare_api_messages enc c p m =
     (if count_tokens enc m + messages_cost enc (fst (history_messages enc c p)) < MAX_TOKENS
      then fst (history_messages enc c p) @ [user_message m]
      else fst (history_messages enc c p))"
proof -
  obtain ms u where h: "history_messages enc c p = (ms, u)"
    by (cases "history_messages enc c p")
  with history_messages_tokens_used [of enc c p] have "u = messages_cost enc ms" by simp
  with h show ?thesis by (simp add: prepare_api_messages_def)
qed

text \<open>
  The theorem on both sides of the test: the new message \<open>hi\<close> is appended, a new
  message of 4000 tokens is dropped.
\<close>

theorem prepare_api_messages_new_message_witness:
  "prepare_api_messages (\<lambda>s. s) example_conversation default_profile [104, 105] =
     fst (history_messages (\<lambda>s. s) example_conversation default_profile) @
       [user_message [104, 105]] \<and>
   prepare_api_messages (\<lambda>s. s) example_conversation default_profile (replicate 4000 97) =
     fst (history_messages (\<lambda>s. s) example_conversation default_profile)"
  using prepare_api_messages_new_message
          [of "\<lambda>s. s" example_conversation default_profile "[104, 105]"]
        prepare_api_messages_new_message
          [of "\<lambda>s. s" example_conversation default_profile "replicate 4000 97"]
        example_history
  by (simp add: count_tokens_def MAX_TOKENS_def)

text \<open>
  Claim C9: for every conversation, profile and new message, the list returned by
  \<open>prepare_api_messages\<close> is the system message, then for the first \<open>k\<close> turns of
  the window \<open>conversation[-MAX_HISTORY_ITEMS:]\<close> (the at most 20 most recent turns,
  in chronological order) the user message of the turn followed by its assistant
  message, contents verbatim, then either nothing or one user message holding the new
  message. The included turns are a contiguous run of the conversation, and every role
  in the list is \<open>system\<close>, \<open>user\<close> or \<open>assistant\<close>.
\<close>

theorem prepare_api_messages_shape:
  "\<exists>k tail. k \<le> length (py_last_n MAX_HISTORY_ITEMS c) \<and>
      prepare_api_messages enc c p m =
        system_prompt p # concat (map turn_messages (take k (py_last_n MAX_HISTORY_ITEMS c))) @ tail \<and>
      (tail = [] \<or> tail = [user_message m]) \<and>
      sublist (take k (py_last_n MAX_HISTORY_ITEMS c)) c \<and>
      suffix (py_last_n MAX_HISTORY_ITEMS c) c \<and>
      length (py_last_n MAX_HISTORY_ITEMS c) \<le> MAX_HISTORY_ITEMS \<and>
      role (system_prompt p) = asc ''system'' \<and>
      (\<forall>x\<in>set (prepare_api_messages enc c p m).
         role x = asc ''system'' \<or> role x = asc ''user'' \<or> role x = asc ''assistant'')"
proof -
  let ?w = "py_last_n MAX_HISTORY_ITEMS c"
  let ?s = "count_tokens enc (content (system_prompt p))"
  obtain k where k: "k \<le> length ?w"
    and h: "history_messages enc c p =
        (system_prompt p # concat (map turn_messages (take k ?w)),
         ?s + conversation_cost enc (take k ?w))"
    using history_messages_shape by blast
  let ?h = "concat (map turn_messages (take k ?w))"
  let ?t = "if count_tokens enc m + (?s + conversation_cost enc (take k ?w)) < MAX_TOKENS
            then [user_message m] else []"
  have eq: "prepare_api_messages enc c p m = system_prompt p # ?h @ ?t"
    by (simp add: prepare_api_messages_def h)
  have t: "?t = [] \<or> ?t = [user_message m]" by simp
  have suf: "suffix ?w c"
    by (simp add: py_last_n_def suffix_drop)
  have len: "length ?w \<le> MAX_HISTORY_ITEMS"
    by (simp add: py_last_n_def MAX_HISTORY_ITEMS_def)
  have sub: "sublist (take k ?w) c"
    using suf by (meson prefix_imp_sublist sublist_order.order_trans suffix_imp_sublist take_is_prefix)
  have sys: "role (system_prompt p) = asc ''system''"
    by (simp add: system_prompt_def)
  have roles: "\<forall>x\<in>set (system_prompt p # ?h @ ?t).
         role x = asc ''system'' \<or> role x = asc ''user'' \<or> role x = asc ''assistant''"
    using role_turn_messages [of _ "take k ?w"] sys
    by (auto simp: user_message_def)
  show ?thesis
    using k eq t sub suf len sys roles
    by (intro exI [of _ k] exI [of _ ?t]) (simp only: simp_thms)
qed

text \<open>
  The theorem at the example conversation, whose three turns are the whole window.
\<close>

theorem prepare_api_messages_shape_witness:
  "\<exists>k tail. k \<le> length example_conversation \<and>
      prepare_api_messages (\<lambda>s. s) example_conversation default_profile [104, 105] =
        system_prompt default_profile #
          concat (map turn_messages (take k example_conversation)) @ tail \<and>
      (tail = [] \<or> tail = [user_message [104, 105]])"
proof -
  have w: "py_last_n MAX_HISTORY_ITEMS example_conversation = example_conversation"
    by (simp add: py_last_n_def example_conversation_def MAX_HISTORY_ITEMS_def)
  from prepare_api_messages_shape
         [of example_conversation "\<lambda>s. s" default_profile "[104, 105]"]
  show ?thesis unfolding w by blast
qed

section \<open>Saving a conversation in parts\<close>

lemma decimal_value_str_nat: "decimal_value (str_nat n) = n"
proof (induction n rule: str_nat.induct)
  case (1 n)
  show ?case
  proof (cases "n < 10")
    case True
    then show ?thesis
      by (subst str_nat.simps) (simp add: decimal_value_def)
  next
    case False
    with 1 have "decimal_value (str_nat (n div 10)) = n div 10" by simp
    with False show ?thesis
      by (subst str_nat.simps) (simp add: decimal_value_def)
  qed
qed

lemma str_nat_inj: "str_nat a = str_nat b \<Longrightarrow> a = b"
  by (metis decimal_value_str_nat)

lemma part_filename_inj: "part_filename base i = part_filename base j \<Longrightarrow> i = j"
proof -
  assume "part_filename base i = part_filename base j"
  then have "str_nat (nat (int i + 1)) = str_nat (nat (int j + 1))"
    by (simp add: part_filename_def str_int_def)
  then have "nat (int i + 1) = nat (int j + 1)" by (rule str_nat_inj)
  then show "i = j" by simp
qed

lemma write_parts_other:
  "f \<notin> part_filename base ` set ns \<Longrightarrow> files (write_parts base s ns w) f = files w f"
  by (induction ns arbitrary: w) (auto simp: write_file_def)

lemma write_parts_frame:
  "stdout (write_parts base s ns w) = stdout w \<and>
   requests (write_parts base s ns w) = requests w \<and>
   clock_reads (write_parts base s ns w) = clock_reads w"
  by (induction ns arbitrary: w) (simp_all add: write_file_def)

lemma write_parts_part:
  "distinct ns \<Longrightarrow> i \<in> set ns \<Longrightarrow>
   files (write_parts base s ns w) (part_filename base i) =
     Some (py_slice (i * MAX_CONVERSATION_LENGTH) ((i + 1) * MAX_CONVERSATION_LENGTH) s)"
proof (induction ns arbitrary: w)
  case Nil
  then show ?case by simp
next
  case (Cons n ns)
  show ?case
  proof (cases "i = n")
    case True
    with Cons.prems have "part_filename base i \<notin> part_filename base ` set ns"
      using part_filename_inj by fastforce
    then show ?thesis
      using True by (simp add: write_parts_other write_file_def)
  next
    case False
    with Cons show ?thesis by simp
  qed
qed

lemma concat_slices:
  "concat (map (\<lambda>i. py_slice (i * m) ((i + 1) * m) s) [0..<n]) = take (n * m) s"
proof (induction n)
  case 0
  then show ?case by simp
next
  case (Suc n)
  have "take (n * m) s @ take m (drop (n * m) s) = take (n * m + m) s"
    by (simp add: take_add)
  with Suc show ?case by (simp add: py_slice_def add.commute)
qed

lemma parts_cover: "0 < m \<Longrightarrow> length s \<le> (length s div m + 1) * m"
proof -
  assume "0 < m"
  then have "length s < (length s div m + 1) * m"
    using dividend_less_div_times [of m "length s"] by (simp add: algebra_simps)
  then show ?thesis by simp
qed

lemma concat_map_concat:
  "concat (map u (concat xs)) = concat (map (\<lambda>x. concat (map u x)) xs)"
  by (induction xs) simp_all

lemma str_int_small: "str_int 1 = asc ''1''" "str_int 2 = asc ''2''" "str_int 3 = asc ''3''"
  "str_int 500 = asc ''500''"
  by (simp_all add: str_int_def str_nat.simps asc_def)

text \<open>
  Claim C4: let \<open>s\<close> be the serialization \<open>json.dumps(conversation)\<close> and
  \<open>base\<close> the timestamped base name. When \<open>len(s)\<close> exceeds
  \<open>MAX_CONVERSATION_LENGTH\<close>, \<open>save_conversation\<close> writes the part-files
  \<open>base_part1.json\<close>, \<open>base_part2.json\<close>, ..., one per index of
  \<open>range(len(s) // MAX_CONVERSATION_LENGTH + 1)\<close>, each holding its slice of \<open>s\<close>, and no
  other file changes; the contents of the part-files, concatenated in ascending order of
  the numeric suffix, are exactly \<open>s\<close>, and so are their encodings under any encoding
  that works code point by code point (as UTF-8 does), byte for byte. When \<open>len(s)\<close>
  does not exceed the threshold, the one file \<open>base.json\<close> is written and holds
  exactly \<open>s\<close>.
\<close>

theorem save_conversation_round_trip:
  "(let s = json_dumps e (conversation_json c);
        base = asc ''data/conversations/conversation_'' @ strftime_now e (clock_reads w);
        parts = length s div MAX_CONVERSATION_LENGTH + 1;
        chunks = map (\<lambda>i. py_slice (i * MAX_CONVERSATION_LENGTH)
                               ((i + 1) * MAX_CONVERSATION_LENGTH) s) [0..<parts];
        w' = save_conversation e c w
    in if length s > MAX_CONVERSATION_LENGTH then
         map (\<lambda>i. files w' (part_filename base i)) [0..<parts] = map Some chunks \<and>
         concat chunks = s \<and>
         (\<forall>u. concat (map (\<lambda>ch. concat (map u ch)) chunks) = concat (map u s)) \<and>
         (\<forall>f. f \<notin> part_filename base ` {0..<parts} \<longrightarrow> files w' f = files w f)
       else files w' = (files w)(base @ asc ''.json'' \<mapsto> s))"
proof -
  define s where "s = json_dumps e (conversation_json c)"
  define base where
    "base = asc ''data/conversations/conversation_'' @ strftime_now e (clock_reads w)"
  define parts where "parts = length s div MAX_CONVERSATION_LENGTH + 1"
  define w1 where "w1 = w\<lparr>clock_reads := Suc (clock_reads w)\<rparr>"
  show ?thesis
  proof (cases "length s > MAX_CONVERSATION_LENGTH")
    case True
    then have sc: "save_conversation e c w = write_parts base s [0..<parts] w1"
      by (simp add: save_conversation_def now_timestamp_def s_def base_def parts_def w1_def Let_def)
    have a: "map (\<lambda>i. files (write_parts base s [0..<parts] w1) (part_filename base i)) [0..<parts]
        = map Some (map (\<lambda>i. py_slice (i * MAX_CONVERSATION_LENGTH)
                               ((i + 1) * MAX_CONVERSATION_LENGTH) s) [0..<parts])"
      by (simp add: write_parts_part)
    have "take (parts * MAX_CONVERSATION_LENGTH) s = s"
      using parts_cover [of MAX_CONVERSATION_LENGTH s]
      by (simp add: parts_def MAX_CONVERSATION_LENGTH_def)
    then have b: "concat (map (\<lambda>i. py_slice (i * MAX_CONVERSATION_LENGTH)
                               ((i + 1) * MAX_CONVERSATION_LENGTH) s) [0..<parts]) = s"
      by (simp only: concat_slices)
    have c: "\<forall>f. f \<notin> part_filename base ` {0..<parts} \<longrightarrow>
        files (write_parts base s [0..<parts] w1) f = files w f"
      by (simp add: write_parts_other w1_def)
    have d: "\<forall>u. concat (map (\<lambda>ch. concat (map u ch))
                 (map (\<lambda>i. py_slice (i * MAX_CONVERSATION_LENGTH)
                               ((i + 1) * MAX_CONVERSATION_LENGTH) s) [0..<parts])) =
               concat (map u s)"
      using b concat_map_concat by metis
    from True a b c d show ?thesis
      unfolding Let_def sc [unfolded s_def base_def parts_def]
      unfolding s_def base_def parts_def by simp
  next
    case False
    then show ?thesis
      by (simp add: save_conversation_def now_timestamp_def s_def write_file_def Let_def)
  qed
qed

text \<open>
  The theorem at a serialization of 25000 characters: three part-files of 10000, 10000
  and 5000 characters, which concatenate to the serialization.
\<close>

theorem save_conversation_round_trip_witness:
  "files (save_conversation example_env example_conversation empty_world)
     (asc ''data/conversations/conversation_20240101_000000_part1.json'') = Some (replicate 10000 97) \<and>
   files (save_conversation example_env example_conversation empty_world)
     (asc ''data/conversations/conversation_20240101_000000_part2.json'') = Some (replicate 10000 97) \<and>
   files (save_conversation example_env example_conversation empty_world)
     (asc ''data/conversations/conversation_20240101_000000_part3.json'') = Some (replicate 5000 97) \<and>
   replicate 10000 97 @ replicate 10000 97 @ replicate 5000 97 =
     json_dumps example_env (conversation_json example_conversation)"
proof -
  have s: "json_dumps example_env (conversation_json example_conversation) = replicate 25000 97"
    by (simp add: example_env_def)
  have t: "strftime_now example_env (clock_reads empty_world) = asc ''20240101_000000''"
    by (simp add: example_env_def)
  have u: "[0..<length (replicate 25000 (97::nat)) div MAX_CONVERSATION_LENGTH + 1] = [0, 1, 2]"
    by (simp add: MAX_CONVERSATION_LENGTH_def upt_rec)
  have n: "part_filename (asc ''data/conversations/conversation_'' @ asc ''20240101_000000'') 0
             = asc ''data/conversations/conversation_20240101_000000_part1.json''"
     "part_filename (asc ''data/conversations/conversation_'' @ asc ''20240101_000000'') (Suc 0)
             = asc ''data/conversations/conversation_20240101_000000_part2.json''"
     "part_filename (asc ''data/conversations/conversation_'' @ asc ''20240101_000000'') 2
             = asc ''data/conversations/conversation_20240101_000000_part3.json''"
    by (simp_all add: part_filename_def str_int_small) (simp_all add: asc_def)
  have c: "py_slice 0 10000 (replicate 25000 (97::nat)) = replicate 10000 97"
     "py_slice 10000 20000 (replicate 25000 (97::nat)) = replicate 10000 97"
     "py_slice 20000 30000 (replicate 25000 (97::nat)) = replicate 5000 97"
    by (simp_all add: py_slice_def)
  from save_conversation_round_trip [of example_env example_conversation empty_world]
  show ?thesis
    unfolding Let_def s t u
    by (auto simp: n c MAX_CONVERSATION_LENGTH_def replicate_add [symmetric])
qed

section \<open>The refusing encoder and the total one\<close>

text \<open>
  With an encoder that answers every text, the raising functions return what the
  functions over the total encoder return; and whatever the encoder, a result they
  return is the result over \<open>tokens\<close> of it.
\<close>

lemma count_tokens_raising_total:
  "count_tokens_raising (\<lambda>s. Inr (enc s)) s = Inr (count_tokens enc s)"
  by (simp add: count_tokens_raising_def count_tokens_def)

lemma turn_tokens_raising_total:
  "turn_tokens_raising (\<lambda>s. Inr (enc s)) u b = Inr (count_tokens enc u + count_tokens enc b)"
  by (simp add: turn_tokens_raising_def count_tokens_raising_total)

lemma trim_loop_raising_total:
  "trim_loop_raising (\<lambda>s. Inr (enc s)) B rs tot acc = Inr (trim_loop enc B rs tot acc)"
  by (induction enc B rs tot acc rule: trim_loop.induct)
     (simp_all add: turn_tokens_raising_total Let_def)

lemma trim_conversation_raising_total:
  "trim_conversation_raising (\<lambda>s. Inr (enc s)) c B = Inr (trim_conversation enc c B)"
  by (simp add: trim_conversation_raising_def trim_conversation_def trim_loop_raising_total)

lemma history_loop_raising_total:
  "history_loop_raising (\<lambda>s. Inr (enc s)) ts msgs used = Inr (history_loop enc ts msgs used)"
  by (induction enc ts msgs used rule: history_loop.induct)
     (simp_all add: turn_tokens_raising_total Let_def)

lemma prepare_api_messages_raising_total:
  "prepare_api_messages_raising (\<lambda>s. Inr (enc s)) c p m = Inr (prepare_api_messages enc c p m)"
  by (simp add: prepare_api_messages_raising_def prepare_api_messages_def history_messages_def
      count_tokens_raising_total history_loop_raising_total split: prod.splits)

lemma count_tokens_raising_tokens:
  "count_tokens_raising tok s = Inr n \<Longrightarrow> n = count_tokens (tokens tok) s"
  by (auto simp: count_tokens_raising_def count_tokens_def tokens_def split: sum.splits)

lemma turn_tokens_raising_tokens:
  "turn_tokens_raising tok u b = Inr n \<Longrightarrow>
     n = count_tokens (tokens tok) u + count_tokens (tokens tok) b"
  by (auto simp: turn_tokens_raising_def split: sum.splits dest: count_tokens_raising_tokens)

lemma trim_loop_raising_tokens:
  "trim_loop_raising tok B rs tot acc = Inr r \<Longrightarrow> r = trim_loop (tokens tok) B rs tot acc"
proof (induction rs arbitrary: tot acc)
  case Nil
  then show ?case by simp
next
  case (Cons item rest)
  obtain u b where item: "item = (u, b)" by (cases item)
  from Cons.prems obtain n where n: "turn_tokens_raising tok u b = Inr n"
    by (cases "turn_tokens_raising tok u b") (simp_all add: item)
  then have c: "n = count_tokens (tokens tok) u + count_tokens (tokens tok) b"
    by (rule turn_tokens_raising_tokens)
  show ?case
  proof (cases "tot + n > B")
    case True
    with Cons.prems n c show ?thesis by (simp add: item)
  next
    case False
    with Cons.prems n have "trim_loop_raising tok B rest (tot + n) ((u, b) # acc) = Inr r"
      by (simp add: item)
    from Cons.IH [OF this] False c show ?thesis by (simp add: item)
  qed
qed

lemma trim_conversation_raising_tokens:
  "trim_conversation_raising tok c B = Inr r \<Longrightarrow> r = trim_conversation (tokens tok) c B"
  by (simp add: trim_conversation_raising_def trim_conversation_def trim_loop_raising_tokens)

lemma history_loop_raising_tokens:
  "history_loop_raising tok ts msgs used = Inr r \<Longrightarrow> r = history_loop (tokens tok) ts msgs used"
proof (induction ts arbitrary: msgs used)
  case Nil
  then show ?case by simp
next
  case (Cons item rest)
  obtain u b where item: "item = (u, b)" by (cases item)
  from Cons.prems obtain n where n: "turn_tokens_raising tok u b = Inr n"
    by (cases "turn_tokens_raising tok u b") (simp_all add: item Let_def)
  then have c: "n = count_tokens (tokens tok) u + count_tokens (tokens tok) b"
    by (rule turn_tokens_raising_tokens)
  show ?case
  proof (cases "used + n > MAX_TOKENS")
    case True
    with Cons.prems n c show ?thesis by (simp add: item Let_def)
  next
    case False
    with Cons.prems n
    have "history_loop_raising tok rest (msgs @ [user_message u, assistant_message b]) (used + n)
        = Inr r"
      by (simp add: item Let_def)
    from Cons.IH [OF this] False c show ?thesis by (simp add: item Let_def)
  qed
qed

lemma prepare_api_messages_raising_tokens:
  "prepare_api_messages_raising tok c p m = Inr r \<Longrightarrow> r = prepare_api_messages (tokens tok) c p m"
proof -
  assume a: "prepare_api_messages_raising tok c p m = Inr r"
  then obtain s where s: "count_tokens_raising tok (content (system_prompt p)) = Inr s"
    by (cases "count_tokens_raising tok (content (system_prompt p))")
       (simp_all add: prepare_api_messages_raising_def)
  from a s obtain msgs used where
    h: "history_loop_raising tok (py_last_n MAX_HISTORY_ITEMS c) [system_prompt p] s = Inr (msgs, used)"
    by (cases "history_loop_raising tok (py_last_n MAX_HISTORY_ITEMS c) [system_prompt p] s")
       (auto simp: prepare_api_messages_raising_def)
  from a s h obtain n where n: "count_tokens_raising tok m = Inr n"
    by (cases "count_tokens_raising tok m") (simp_all add: prepare_api_messages_raising_def)
  have "history_messages (tokens tok) c p = (msgs, used)"
    using history_loop_raising_tokens [OF h] count_tokens_raising_tokens [OF s]
    by (simp add: history_messages_def)
  with a s h n count_tokens_raising_tokens [OF n] show ?thesis
    by (simp add: prepare_api_messages_raising_def prepare_api_messages_def split: if_splits)
qed

lemma api_request_total:
  assumes "\<And>s. encode e s = Inr (enc s)"
  shows "\<exists>data. api_request e prompt c p = Inr data"
proof -
  from assms have "encode e = (\<lambda>s. Inr (enc s))" by (intro ext)
  then show ?thesis
    by (simp add: api_request_def prepare_api_messages_raising_total count_tokens_raising_total)
qed

section \<open>The streaming client\<close>

lemma is_Exception_all: "is_Exception c"
  by (cases c) simp_all

lemma call_deepseek_api_stream_result:
  "api_request e prompt c p = Inr data \<Longrightarrow>
   fst (call_deepseek_api_stream e prompt c p w) =
     (case stream_try e (http_post e (length (requests w)) data) of
        (fs, None) \<Rightarrow> Exhausted fs
      | (fs, Some x) \<Rightarrow>
          Exhausted (fs @ [JStr ([91, 0x8FDE, 0x63A5, 0x9519, 0x8BEF, 93, 32] @ exc_str x)]))"
  by (simp add: call_deepseek_api_stream_def Let_def is_Exception_all
      split: prod.splits option.splits)

lemma call_deepseek_api_stream_world:
  "api_request e prompt c p = Inr data \<Longrightarrow>
   snd (call_deepseek_api_stream e prompt c p w) = w\<lparr>requests := requests w @ [data]\<rparr>"
  by (simp add: call_deepseek_api_stream_def Let_def is_Exception_all
      split: prod.splits option.splits)

lemma call_deepseek_api_stream_refused:
  "api_request e prompt c p = Inl x \<Longrightarrow>
   call_deepseek_api_stream e prompt c p w = (Raised [] x, w)"
  by (simp add: call_deepseek_api_stream_def)

lemma call_deepseek_api_stream_Exhausted:
  "api_request e prompt c p = Inr data \<Longrightarrow>
   \<exists>fs. fst (call_deepseek_api_stream e prompt c p w) = Exhausted fs"
  by (simp add: call_deepseek_api_stream_result split: prod.splits option.splits)

text \<open>
  Once the request is built, no exception leaves the generator: an exception of the
  \<open>try\<close> body becomes the last fragment.
\<close>

lemma stream_in_band_after_request:
  assumes "api_request e prompt c p = Inr data"
  shows "\<exists>ys. fst (call_deepseek_api_stream e prompt c p w) = Exhausted ys \<and>
     (\<forall>fs x. stream_try e (http_post e (length (requests w)) data) = (fs, Some x) \<longrightarrow>
              ys = fs @ [JStr ([91, 0x8FDE, 0x63A5, 0x9519, 0x8BEF, 93, 32] @ exc_str x)])"
proof (cases "stream_try e (http_post e (length (requests w)) data)")
  case (Pair fs r)
  then show ?thesis
    by (cases r) (simp_all add: call_deepseek_api_stream_result [OF assms])
qed

text \<open>
  Claim C5: for every prompt, conversation and profile, if the endpoint answers the
  request the generator built and sent with a status code other than 200 (every
  non-success status is one, 500 among them), then \<open>call_deepseek_api_stream\<close> yields
  exactly one fragment, a string that contains the decimal status code, and ends without
  raising.
\<close>

theorem stream_non_success_status:
  assumes "api_request e prompt c p = Inr data"
    and "http_post e (length (requests w)) data = Response status_code lines failure"
    and "status_code \<noteq> 200"
  shows "\<exists>d. fst (call_deepseek_api_stream e prompt c p w) = Exhausted [JStr d] \<and>
             sublist (str_int status_code) d"
proof -
  let ?d = "asc ''[API '' @ [0x9519, 0x8BEF] @ asc ''] '' @ [0x72B6, 0x6001, 0x7801, 58, 32] @
            str_int status_code"
  have "fst (call_deepseek_api_stream e prompt c p w) = Exhausted [JStr ?d]"
    using assms by (simp add: call_deepseek_api_stream_result stream_try_def)
  moreover have "sublist (str_int status_code) ?d"
    by (metis append_assoc sublist_appendI suffix_imp_sublist suffixI)
  ultimately show ?thesis by blast
qed

text \<open>
  The theorem at status 500: the one fragment contains \<open>500\<close>.
\<close>

theorem stream_non_success_status_witness:
  "\<exists>d. fst (call_deepseek_api_stream example_env (asc ''hi'') example_conversation
             default_profile empty_world) = Exhausted [JStr d] \<and>
       sublist (asc ''500'') d"
proof -
  have "encode example_env s = Inr s" for s
    by (simp add: example_env_def)
  then obtain data where
    d: "api_request example_env (asc ''hi'') example_conversation default_profile = Inr data"
    using api_request_total [of example_env "\<lambda>s. s"] by blast
  have r: "http_post example_env (length (requests empty_world)) data = Response 500 [] None"
    by (simp add: example_env_def)
  have n: "(500::int) \<noteq> 200" by simp
  from stream_non_success_status [OF d r n] show ?thesis
    by (simp add: str_int_small)
qed

text \<open>
  Claim C6 says that no exception ever leaves the generator and that every failure comes
  back as a fragment. The program breaks it. The handler \<open>except Exception\<close> covers
  the \<open>try\<close> only, and the two statements before it count tokens: with the prompt
  \<open><|endoftext|>\<close>, on which the encoder raises a \<open>ValueError\<close>, the generator
  raises at its first \<open>next\<close>, having yielded nothing and sent no request. And a
  response line that is not JSON is skipped without any fragment: a response of that one
  line ends the stream with nothing yielded.
\<close>

theorem stream_raises_before_try:
  "call_deepseek_api_stream refusing_env (asc ''<|endoftext|>'') example_conversation
       default_profile empty_world =
     (Raised [] (Exn ValueError (asc ''disallowed special token'')), empty_world) \<and>
   fst (call_deepseek_api_stream
          (example_env\<lparr>http_post := (\<lambda>n r. Response 200 [asc ''data: {bad''] None)\<rparr>)
          (asc ''hi'') example_conversation default_profile empty_world) = Exhausted []"
proof -
  let ?tok = "encode refusing_env"
  have ok: "\<not> sublist (asc ''<|endoftext|>'') s \<Longrightarrow> ?tok s = Inr s" for s
    by (simp add: refusing_env_def example_env_def)
  have bad: "?tok (asc ''<|endoftext|>'') = Inl (Exn ValueError (asc ''disallowed special token''))"
    by (simp add: refusing_env_def example_env_def)
  have sys: "\<not> sublist (asc ''<|endoftext|>'') (content (system_prompt default_profile))"
    by (simp add: system_prompt_def default_profile_def str_int_def str_nat.simps asc_def
        sublist_code)
  have s: "count_tokens_raising ?tok (content (system_prompt default_profile)) = Inr 56"
    using ok [OF sys] default_system_prompt_cost
    by (simp add: count_tokens_raising_def count_tokens_def)
  have t: "\<not> sublist (asc ''<|endoftext|>'') s" if "length s < 13" for s
    using that by (auto simp: asc_def dest: sublist_length_le)
  have h: "history_loop_raising ?tok (py_last_n MAX_HISTORY_ITEMS example_conversation)
             [system_prompt default_profile] 56 =
           Inr (system_prompt default_profile # concat (map turn_messages example_conversation), 65)"
    by (simp add: py_last_n_def MAX_HISTORY_ITEMS_def example_conversation_def
        turn_tokens_raising_def count_tokens_raising_def ok t MAX_TOKENS_def turn_messages_def
        Let_def)
  have "api_request refusing_env (asc ''<|endoftext|>'') example_conversation default_profile =
      Inl (Exn ValueError (asc ''disallowed special token''))"
    by (simp add: api_request_def prepare_api_messages_raising_def s h)
       (simp add: count_tokens_raising_def bad)
  then have a: "call_deepseek_api_stream refusing_env (asc ''<|endoftext|>'') example_conversation
       default_profile empty_world =
     (Raised [] (Exn ValueError (asc ''disallowed special token'')), empty_world)"
    by (rule call_deepseek_api_stream_refused)
  let ?e = "example_env\<lparr>http_post := (\<lambda>n r. Response 200 [asc ''data: {bad''] None)\<rparr>"
  have "encode ?e s = Inr s" for s
    by (simp add: example_env_def)
  then obtain data where
    d: "api_request ?e (asc ''hi'') example_conversation default_profile = Inr data"
    using api_request_total [of ?e "\<lambda>s. s"] by blast
  have l: "stream_line ?e (asc ''data: {bad'') = Inr None"
    by (simp add: stream_line_def chunk_try_def example_env_def asc_def py_strip_def
        py_isspace_def hi_chunk_text_def five_chunk_text_def)
  have b: "fst (call_deepseek_api_stream ?e (asc ''hi'') example_conversation default_profile
                  empty_world) = Exhausted []"
    by (simp add: call_deepseek_api_stream_result [OF d] stream_try_def l)
  from a b show ?thesis by simp
qed

section \<open>Loading the profile\<close>

text \<open>
  Claim C7: if the file \<open>profile.json\<close> is absent, \<open>load_profile\<close> returns the
  default profile, the dictionary with name U+7528 U+6237, age 20, profession U+672A
  U+8BBE U+7F6E, interests the one string U+672A U+8BBE U+7F6E and an empty memory, not
  the failure value \<open>None\<close>; and it writes the default document, the default profile
  under the key \<open>my_profile\<close>, to \<open>profile.json\<close>, changing no other file and
  sending no request.
\<close>

theorem load_profile_absent:
  assumes "files w (asc ''profile.json'') = None"
  shows "fst (load_profile e w) = profile_json default_profile \<and>
         fst (load_profile e w) \<noteq> JNull \<and>
         profile_json default_profile =
           JObj [(asc ''name'', JStr [0x7528, 0x6237]), (asc ''age'', JInt 20),
                 (asc ''profession'', JStr [0x672A, 0x8BBE, 0x7F6E]),
                 (asc ''interests'', JArr [JStr [0x672A, 0x8BBE, 0x7F6E]]),
                 (asc ''memory'', JArr [])] \<and>
         files (snd (load_profile e w)) =
           (files w)(asc ''profile.json'' \<mapsto>
              json_dump_indent e (JObj [(asc ''my_profile'', profile_json default_profile)])) \<and>
         requests (snd (load_profile e w)) = requests w"
  using assms
  by (simp add: load_profile_def load_profile_try_def Let_def write_file_def print_line_def
      profile_json_def default_profile_def)

text \<open>
  The theorem in the empty world, where no file exists.
\<close>

theorem load_profile_absent_witness:
  "files empty_world (asc ''profile.json'') = None \<and>
   fst (load_profile example_env empty_world) = profile_json default_profile \<and>
   files (snd (load_profile example_env empty_world)) (asc ''profile.json'') = Some (asc ''{}'')"
proof -
  have h: "files empty_world (asc ''profile.json'') = None"
    by (simp add: empty_world_def)
  have d: "json_dump_indent example_env (JObj [(asc ''my_profile'', profile_json default_profile)])
      = asc ''{}''"
    by (simp add: example_env_def)
  from load_profile_absent [OF h, of example_env] h show ?thesis
    by (simp add: d)
qed

section \<open>One turn of the conversation\<close>

lemma all_dropWhile: "(\<forall>x\<in>set (dropWhile P s). P x) \<longleftrightarrow> (\<forall>x\<in>set s. P x)"
  by (induction s) auto

lemma py_strip_blank: "py_strip s = [] \<longleftrightarrow> (\<forall>ch\<in>set s. py_isspace ch)"
  by (simp add: py_strip_def dropWhile_eq_Nil_conv all_dropWhile)

lemma fragment_text_JStr: "fragment_text (JStr s) = s"
  by (simp add: fragment_text_def)

lemma respond_loop_ok:
  "respond_loop e t m b fs = (ys, Inr b') \<Longrightarrow>
     (\<forall>f\<in>set fs. \<exists>s. f = JStr s) \<and>
     b' = b @ concat (map fragment_text fs) \<and>
     length ys = length fs \<and>
     (\<forall>k<length fs. ys ! k = t @ [(m, b @ concat (map fragment_text (take (Suc k) fs)))])"
proof (induction fs arbitrary: b ys)
  case Nil
  then show ?case by simp
next
  case (Cons f fs)
  from Cons.prems obtain s where f: "f = JStr s"
    by (cases f) simp_all
  obtain ys' r where rec: "respond_loop e t m (b @ s) fs = (ys', r)"
    by (cases "respond_loop e t m (b @ s) fs")
  with Cons.prems f have ys: "ys = (t @ [(m, b @ s)]) # ys'" and r: "r = Inr b'"
    by simp_all
  from Cons.IH [OF rec [unfolded r]]
  have ih: "\<forall>f\<in>set fs. \<exists>s. f = JStr s" "b' = (b @ s) @ concat (map fragment_text fs)"
    "length ys' = length fs"
    "\<forall>k<length fs. ys' ! k = t @ [(m, (b @ s) @ concat (map fragment_text (take (Suc k) fs)))]"
    by simp_all
  have "\<forall>k<length (f # fs).
      ys ! k = t @ [(m, b @ concat (map fragment_text (take (Suc k) (f # fs))))]"
  proof (intro allI impI)
    fix k assume "k < length (f # fs)"
    then show "ys ! k = t @ [(m, b @ concat (map fragment_text (take (Suc k) (f # fs))))]"
      using ih(4) by (cases k) (simp_all add: ys f fragment_text_JStr)
  qed
  with ih show ?case
    by (simp add: ys f fragment_text_JStr)
qed

lemma respond_loop_strings:
  "\<forall>f\<in>set fs. \<exists>s. f = JStr s \<Longrightarrow> \<exists>ys b'. respond_loop e t m b fs = (ys, Inr b')"
proof (induction fs arbitrary: b)
  case Nil
  then show ?case by simp
next
  case (Cons f fs)
  then obtain s where f: "f = JStr s" by auto
  from Cons obtain ys b' where "respond_loop e t m (b @ s) fs = (ys, Inr b')"
    by fastforce
  then show ?case by (simp add: f)
qed

lemma respond_try_None_iff:
  "fst (snd (respond_try e message chat_history p w)) = None \<longleftrightarrow>
   (\<exists>trimmed frags.
      trim_conversation_raising (encode e) chat_history (MAX_TOKENS div 2) = Inr trimmed \<and>
      fst (call_deepseek_api_stream e message trimmed p (save_training_data e message p w)) =
        Exhausted frags \<and>
      (\<forall>f\<in>set frags. \<exists>s. f = JStr s))"
proof (cases "trim_conversation_raising (encode e) chat_history (MAX_TOKENS div 2)")
  case (Inl x)
  then show ?thesis by (simp add: respond_try_def Let_def)
next
  case (Inr t)
  let ?w1 = "save_training_data e message p w"
  obtain g w2 where c: "call_deepseek_api_stream e message t p ?w1 = (g, w2)"
    by (cases "call_deepseek_api_stream e message t p ?w1")
  show ?thesis
  proof (cases g)
    case (Raised fs x)
    then show ?thesis
      by (simp add: respond_try_def Let_def Inr c split: prod.splits sum.splits)
  next
    case (Exhausted fs)
    obtain ys r where l: "respond_loop e t message [] fs = (ys, r)"
      by (cases "respond_loop e t message [] fs")
    show ?thesis
    proof (cases r)
      case (Inl x)
      have "\<not> (\<forall>f\<in>set fs. \<exists>s. f = JStr s)"
        using respond_loop_strings [of fs e t message "[]"] l Inl by auto
      then show ?thesis
        by (simp add: respond_try_def Let_def Inr c Exhausted l Inl)
    next
      case (Inr b)
      with respond_loop_ok [of e t message "[]" fs ys b] l
      have "\<forall>f\<in>set fs. \<exists>s. f = JStr s" by simp
      then show ?thesis
        by (simp add: respond_try_def Let_def \<open>trim_conversation_raising (encode e) chat_history
              (MAX_TOKENS div 2) = Inr t\<close> c Exhausted l Inr)
    qed
  qed
qed

lemma example_env_encode: "encode example_env s = Inr s"
  by (simp add: example_env_def)

lemma streaming_env_lines:
  "stream_line streaming_env (asc ''data: '' @ hi_chunk_text) = Inr (Some (JStr (asc ''Hi'')))"
  "stream_line streaming_env [] = Inr None"
  "stream_line streaming_env (asc ''data: {bad'') = Inr None"
  "stream_line streaming_env (asc ''data: [DONE]'') = Inr None"
  "stream_line streaming_env (asc ''data:'' @ hi_chunk_text) = Inr (Some (JStr (asc ''Hi'')))"
  by (simp_all add: stream_line_def chunk_try_def delta_content_def streaming_env_def
      example_env_def asc_def py_strip_def py_isspace_def hi_chunk_text_def hi_chunk_def
      five_chunk_text_def)

lemma streaming_env_fragments:
  "fst (call_deepseek_api_stream streaming_env prompt c p w) =
     Exhausted [JStr (asc ''Hi''), JStr (asc ''Hi'')]"
proof -
  have "encode streaming_env s = Inr s" for s
    by (simp add: streaming_env_def example_env_def)
  then obtain data where d: "api_request streaming_env prompt c p = Inr data"
    using api_request_total [of streaming_env "\<lambda>s. s"] by blast
  have "http_post streaming_env (length (requests w)) data =
      Response 200
          [asc ''data: '' @ hi_chunk_text, [], asc ''data: {bad'', asc ''data: [DONE]'',
           asc ''data:'' @ hi_chunk_text] None"
    by (simp add: streaming_env_def)
  then show ?thesis
    by (simp add: call_deepseek_api_stream_result [OF d] stream_try_def streaming_env_lines)
qed

lemma number_env_fragments:
  "fst (call_deepseek_api_stream number_env prompt c p w) = Exhausted [JInt 5]"
proof -
  have "encode number_env s = Inr s" for s
    by (simp add: number_env_def example_env_def)
  then obtain data where d: "api_request number_env prompt c p = Inr data"
    using api_request_total [of number_env "\<lambda>s. s"] by blast
  have r: "http_post number_env (length (requests w)) data =
      Response 200 [asc ''data: '' @ five_chunk_text] None"
    by (simp add: number_env_def)
  have l: "stream_line number_env (asc ''data: '' @ five_chunk_text) = Inr (Some (JInt 5))"
    by (simp add: stream_line_def chunk_try_def delta_content_def number_env_def
      example_env_def asc_def py_strip_def py_isspace_def hi_chunk_text_def five_chunk_def
      five_chunk_text_def)
  show ?thesis
    by (simp add: call_deepseek_api_stream_result [OF d] stream_try_def r l)
qed

lemma example_trim:
  "trim_conversation_raising (encode streaming_env) example_conversation (MAX_TOKENS div 2) =
     Inr example_conversation"
proof -
  have "encode streaming_env = (\<lambda>s. Inr ((\<lambda>s. s) s))"
    by (simp add: streaming_env_def example_env_def)
  then have "trim_conversation_raising (encode streaming_env) example_conversation
      (MAX_TOKENS div 2) = Inr (trim_conversation (\<lambda>s. s) example_conversation (MAX_TOKENS div 2))"
    by (simp only: trim_conversation_raising_total)
  then show ?thesis
    by (simp add: trim_conversation_def example_conversation_def count_tokens_def MAX_TOKENS_def)
qed

lemma long_history_trim:
  "trim_conversation_raising (encode number_env) long_history (MAX_TOKENS div 2) =
     Inr [([103], [104])]"
proof -
  have "encode number_env = (\<lambda>s. Inr ((\<lambda>s. s) s))"
    by (simp add: number_env_def example_env_def)
  then have "trim_conversation_raising (encode number_env) long_history
      (MAX_TOKENS div 2) = Inr (trim_conversation (\<lambda>s. s) long_history (MAX_TOKENS div 2))"
    by (simp only: trim_conversation_raising_total)
  then show ?thesis
    by (simp add: trim_conversation_def long_history_def count_tokens_def MAX_TOKENS_def)
qed

text \<open>
  Claim C8: for every history and profile, if the message is empty or consists of
  whitespace only, \<open>respond\<close> yields exactly the history it was given and leaves the
  world as it was: no training snapshot and no transcript is written (the files are
  unchanged), no request is sent, nothing is printed and the clock is not read.
\<close>

theorem respond_blank_message:
  assumes "\<forall>ch\<in>set message. py_isspace ch"
  shows "respond e message chat_history p w = ([chat_history], w)"
  using assms by (simp add: respond_def py_strip_blank)

text \<open>
  The theorem at a message of a space, a tab, an ideographic space and a newline, and at
  the empty message.
\<close>

theorem respond_blank_message_witness:
  "py_isspace 32 \<and> py_isspace 9 \<and> py_isspace 0x3000 \<and> py_isspace 10 \<and>
   respond example_env [32, 9, 0x3000, 10] example_conversation default_profile empty_world =
     ([example_conversation], empty_world) \<and>
   respond example_env [] example_conversation default_profile empty_world =
     ([example_conversation], empty_world)"
proof -
  have h: "\<forall>ch\<in>set [32, 9, 0x3000, 10]. py_isspace ch"
    by (simp add: py_isspace_def)
  have n: "\<forall>ch\<in>set []. py_isspace ch" by simp
  from respond_blank_message [OF h] respond_blank_message [OF n] h show ?thesis
    by simp
qed

text \<open>
  Claim C10, as stated, takes as its condition that the streaming call completes
  without an uncaught exception. A stream can complete and still yield a fragment that is
  no string: the content of a chunk is yielded whenever it is true in a condition, and
  \<open>bot_message += chunk\<close> then raises a \<open>TypeError\<close> in \<open>respond\<close>. Here the one
  chunk has the content \<open>5\<close>, and the history has two turns of which trimming keeps the
  last: the stream is exhausted with the fragment \<open>5\<close>, and \<open>respond\<close> yields once,
  the whole untrimmed history followed by an error turn, three turns where the claim has
  the one trimmed turn and one new turn.
\<close>

theorem respond_number_fragment:
  "trim_conversation_raising (encode number_env) long_history (MAX_TOKENS div 2) =
     Inr [([103], [104])] \<and>
   fst (call_deepseek_api_stream number_env (asc ''hi'') [([103], [104])] default_profile
          (save_training_data number_env (asc ''hi'') default_profile empty_world)) =
     Exhausted [JInt 5] \<and>
   fst (respond number_env (asc ''hi'') long_history default_profile empty_world) =
     [long_history @ [(asc ''hi'', [0x53D1, 0x751F, 0x9519, 0x8BEF, 58, 32] @ asc ''error'')]] \<and>
   length (last (fst (respond number_env (asc ''hi'') long_history default_profile empty_world)))
     \<noteq> length [([103::nat], [104::nat])] + 1"
proof -
  let ?w1 = "save_training_data number_env (asc ''hi'') default_profile empty_world"
  obtain g w2 where c:
    "call_deepseek_api_stream number_env (asc ''hi'') [([103], [104])] default_profile ?w1 = (g, w2)"
    by (cases "call_deepseek_api_stream number_env (asc ''hi'') [([103], [104])] default_profile ?w1")
  with number_env_fragments [of "asc ''hi''" "[([103], [104])]" default_profile ?w1]
  have g: "g = Exhausted [JInt 5]" by simp
  have s: "py_strip (asc ''hi'') \<noteq> []"
    by (simp add: py_strip_def py_isspace_def asc_def)
  have t: "error_text number_env TypeError (JInt 5) = asc ''error''"
    by (simp add: number_env_def example_env_def)
  have r: "fst (respond number_env (asc ''hi'') long_history default_profile empty_world) =
     [long_history @ [(asc ''hi'', [0x53D1, 0x751F, 0x9519, 0x8BEF, 58, 32] @ asc ''error'')]]"
    using s by (simp add: respond_def respond_try_def Let_def long_history_trim c g t)
  have "length (long_history @ [(asc ''hi'', [0x53D1, 0x751F, 0x9519, 0x8BEF, 58, 32] @ asc ''error'')])
      = 3"
    by (simp add: long_history_def)
  with r long_history_trim number_env_fragments show ?thesis by simp
qed

text \<open>
  Claim C10, amended: for every message that is not blank, every history and profile,
  when the body of the \<open>try\<close> of \<open>respond\<close> completes without an exception (trimming
  and the stream raise nothing, and every fragment of the stream is a string), then with
  \<open>trimmed\<close> the trimmed history \<open>trim_conversation(chat_history, MAX_TOKENS // 2)\<close>:
  \<open>respond\<close> yields one conversation per fragment and a final one; the yield after the
  k-th fragment is \<open>trimmed\<close> followed by one turn, the message with the concatenation
  of the first k fragments; the final yield is \<open>trimmed\<close> followed by the message with
  the concatenation of all fragments in the order they were yielded. So the trimmed turns
  stand unchanged at the front of every yield.
\<close>

theorem respond_final_conversation:
  assumes "py_strip message \<noteq> []"
    and "fst (snd (respond_try e message chat_history p w)) = None"
  shows "\<exists>trimmed frags.
           trim_conversation_raising (encode e) chat_history (MAX_TOKENS div 2) = Inr trimmed \<and>
           trimmed = trim_conversation (tokens (encode e)) chat_history (MAX_TOKENS div 2) \<and>
           fst (call_deepseek_api_stream e message trimmed p (save_training_data e message p w)) =
             Exhausted frags \<and>
           (\<forall>f\<in>set frags. \<exists>s. f = JStr s) \<and>
           length (fst (respond e message chat_history p w)) = length frags + 1 \<and>
           last (fst (respond e message chat_history p w)) =
             trimmed @ [(message, concat (map fragment_text frags))] \<and>
           (\<forall>k<length frags.
              fst (respond e message chat_history p w) ! k =
                trimmed @ [(message, concat (map fragment_text (take (Suc k) frags)))])"
proof -
  let ?w1 = "save_training_data e message p w"
  from assms(2) obtain t fs where
    t: "trim_conversation_raising (encode e) chat_history (MAX_TOKENS div 2) = Inr t"
    and f: "fst (call_deepseek_api_stream e message t p ?w1) = Exhausted fs"
    using respond_try_None_iff [of e message chat_history p w] by blast
  obtain g w2 where c: "call_deepseek_api_stream e message t p ?w1 = (g, w2)"
    by (cases "call_deepseek_api_stream e message t p ?w1")
  with f have g: "g = Exhausted fs" by simp
  obtain ys r where l: "respond_loop e t message [] fs = (ys, r)"
    by (cases "respond_loop e t message [] fs")
  from assms(2) obtain b where r: "r = Inr b"
    by (cases r) (simp_all add: respond_try_def Let_def t c g l)
  from respond_loop_ok [OF l [unfolded r]]
  have ok: "\<forall>f\<in>set fs. \<exists>s. f = JStr s" "b = concat (map fragment_text fs)"
    "length ys = length fs"
    "\<forall>k<length fs. ys ! k = t @ [(message, concat (map fragment_text (take (Suc k) fs)))]"
    by simp_all
  have res: "fst (respond e message chat_history p w) = ys @ [t @ [(message, b)]]"
    using assms(1) by (simp add: respond_def respond_try_def Let_def t c g l r)
  have nth: "\<forall>k<length fs. (ys @ [t @ [(message, b)]]) ! k =
      t @ [(message, concat (map fragment_text (take (Suc k) fs)))]"
    using ok(3,4) by (simp add: nth_append)
  have tt: "t = trim_conversation (tokens (encode e)) chat_history (MAX_TOKENS div 2)"
    using t by (rule trim_conversation_raising_tokens)
  show ?thesis
    unfolding res
    using t tt f ok(1,2,3) nth
    by (intro exI [of _ t] exI [of _ fs]) simp
qed

text \<open>
  The theorem at a stream of five lines: a chunk with the content \<open>Hi\<close>, an empty line,
  a line that is not JSON, the \<open>[DONE]\<close> line and the chunk again. The fragments are
  \<open>Hi\<close> and \<open>Hi\<close>; the message \<open>hi\<close> gets three yields, the last with the bot
  part \<open>HiHi\<close>.
\<close>

theorem respond_final_conversation_witness:
  "py_strip (asc ''hi'') \<noteq> [] \<and>
   fst (snd (respond_try streaming_env (asc ''hi'') example_conversation default_profile
               empty_world)) = None \<and>
   length (fst (respond streaming_env (asc ''hi'') example_conversation default_profile
                  empty_world)) = 3 \<and>
   fst (respond streaming_env (asc ''hi'') example_conversation default_profile empty_world) ! 0 =
     example_conversation @ [(asc ''hi'', asc ''Hi'')] \<and>
   last (fst (respond streaming_env (asc ''hi'') example_conversation default_profile
                empty_world)) =
     example_conversation @ [(asc ''hi'', asc ''HiHi'')]"
proof -
  have h1: "py_strip (asc ''hi'') \<noteq> []"
    by (simp add: py_strip_def py_isspace_def asc_def)
  have h2: "fst (snd (respond_try streaming_env (asc ''hi'') example_conversation default_profile
               empty_world)) = None"
    by (simp add: respond_try_None_iff example_trim streaming_env_fragments)
  have t: "concat (map fragment_text [JStr (asc ''Hi''), JStr (asc ''Hi'')]) = asc ''HiHi''"
    "concat (map fragment_text (take (Suc 0) [JStr (asc ''Hi''), JStr (asc ''Hi'')])) = asc ''Hi''"
    by (simp_all add: fragment_text_JStr asc_def)
  from respond_final_conversation [OF h1 h2]
  show ?thesis
    unfolding example_trim streaming_env_fragments
    using h1 h2 t by auto
qed

end
